theory Spec2Isabelle
  imports Main "HOL-Library.Word"
begin

section \<open>Values, exceptions and the observable history\<close>

text \<open>
  The configuration of the controller is a Python dict from option names to values that
  come from the defaults, a YAML file, the command line or a JSON message.  The values
  the code looks at are \<open>None\<close>, booleans, integers, strings and one nested dict
  (the favourites, name to millimetres).  Floating point values are not part of the model.
  A string is a list of characters with code points below 256.
\<close>

datatype pyval =
    PNone
  | PBool bool
  | PInt int
  | PStr string
  | PDict "(string \<times> pyval) list"

type_synonym config = "string \<rightharpoonup> pyval"

text \<open>Python exceptions the code raises or handles; the last three are not subclasses
  of \<open>Exception\<close>.\<close>

datatype pyexc =
    BleakError
  | StructError
  | ValueError
  | TypeError
  | KeyError
  | AttributeError
  | YAMLError
  | OverflowError
  | KeyboardInterrupt
  | CancelledError
  | SystemExit int

fun is_Exception :: "pyexc \<Rightarrow> bool" where
  "is_Exception KeyboardInterrupt = False"
| "is_Exception CancelledError = False"
| "is_Exception (SystemExit _) = False"
| "is_Exception _ = True"

text \<open>\<open>Running\<close> is a computation that has not returned: a loop that is still going
  when the fuel given to it is used up, or a wait on a future nobody resolves.\<close>

datatype 'a result = Returned 'a | Raised pyexc | Running

type_synonym byte = "8 word"

text \<open>The three GATT characteristics of \<open>GattCharacteristics\<close>.\<close>

datatype endpoint = UUID_HEIGHT | UUID_COMMAND | UUID_REFERENCE_INPUT

text \<open>
  A line handed to the log sink or printed.  \<open>Text t vs\<close> is the format string \<open>t\<close>
  with the values \<open>vs\<close> for its \<open>{}\<close> fields.  The three lines that format the result of
  the floating point conversions \<open>raw_to_mm\<close> and \<open>raw_to_speed\<close> keep the raw
  operands instead:
  \<^item> \<open>Height_mm h\<close> is \<open>"Height: {:4.0f}mm".format(raw_to_mm(h))\<close>;
  \<^item> \<open>Height_Speed h v\<close> is
    \<open>"Height: {:4.0f}mm Speed: {:2.0f}mm/s".format(raw_to_mm(h), raw_to_speed(v))\<close>;
  \<^item> \<open>Final_Height f t\<close> is
    \<open>"Final height: {:4.0f}mm (Target: {:4.0f}mm)".format(raw_to_mm(f), raw_to_mm(t))\<close>.

  \<open>Exception_Text t e\<close> is the format string \<open>t\<close> with the message (or the traceback)
  of the exception \<open>e\<close> for its field; that wording belongs to the libraries.
\<close>

datatype log_line =
    Text string "pyval list"
  | Height_mm int
  | Height_Speed int int
  | Final_Height int int
  | Exception_Text string pyexc

datatype adapter_call = Stop | Disconnect

text \<open>What the session does to the outside world, in order.  \<open>Call m\<close> marks the
  invocation of \<open>stop\<close> or \<open>disconnect\<close> on the adapter.\<close>

datatype event =
    Gatt_Read endpoint
  | Gatt_Write endpoint "byte list"
  | Start_Notify endpoint
  | Client_Connect
  | Client_Get_Services
  | Client_Disconnect
  | Sleep_ms nat
  | Log log_line
  | Print log_line
  | Call adapter_call
  | Scan
  | Forward
  | Serve_Web
  | Serve_Tcp

text \<open>
  The peripheral and the Bluetooth stack are the environment.  Each reply may depend on
  everything the session has done so far, the request being answered included (it is the
  last event of the history).
\<close>

record device =
  read_reply :: "event list \<Rightarrow> pyexc + byte list"
  write_reply :: "event list \<Rightarrow> pyexc option"
  notify_reply :: "event list \<Rightarrow> pyexc option"
  connect_reply :: "event list \<Rightarrow> pyexc option"
  services_reply :: "event list \<Rightarrow> pyexc + string list"
  is_connected :: "event list \<Rightarrow> bool"
  disconnect_reply :: "event list \<Rightarrow> pyexc option"

text \<open>The network side of the host: what becomes of a scan, of forwarding a command to
  a server, and of serving; \<open>None\<close> is no exception.\<close>

record host =
  scan_reply :: "event list \<Rightarrow> pyexc + string list"
  forward_reply :: "event list \<Rightarrow> pyexc option"
  server_reply :: "event list \<Rightarrow> pyexc option"
  tcp_server_reply :: "event list \<Rightarrow> pyexc option"

record UnitConverter =
  base_height :: int

text \<open>
  The mutable part of \<open>BluetoothAdapter\<close>: \<open>client\<close> is \<open>None\<close> until \<open>connect\<close>
  creates the \<open>BleakClient\<close>.  The history of the session is threaded with it.  The
  fields \<open>unit_converter\<close> and \<open>config\<close> are never assigned after construction and
  are passed as arguments where a function reads them.
\<close>

record BluetoothAdapter =
  client :: "unit option"
  trace :: "event list"

type_synonym 'a act = "BluetoothAdapter \<Rightarrow> 'a result \<times> BluetoothAdapter"

definition and_then :: "'a act \<Rightarrow> ('a \<Rightarrow> 'b act) \<Rightarrow> 'b act" where
  "and_then m f s =
     (case m s of
        (Returned x, s') \<Rightarrow> f x s'
      | (Raised e, s') \<Rightarrow> (Raised e, s')
      | (Running, s') \<Rightarrow> (Running, s'))"

definition emit :: "event \<Rightarrow> unit act" where
  "emit e s = (Returned (), s\<lparr>trace := trace s @ [e]\<rparr>)"

definition raise :: "pyexc \<Rightarrow> 'a act" where
  "raise e s = (Raised e, s)"

definition return :: "'a \<Rightarrow> 'a act" where
  "return x s = (Returned x, s)"

section \<open>helper.py: UnitConverter\<close>

text \<open>\<open>mm_to_raw\<close> on an integer height; integer arithmetic in Python.\<close>

definition mm_to_raw :: "UnitConverter \<Rightarrow> int \<Rightarrow> int" where
  "mm_to_raw uc mm = (mm - base_height uc) * 10"

text \<open>
  \<open>raw_to_mm(raw)\<close> is \<open>(raw / 10) + self.base_height\<close>, a float.  Its value is kept out
  of the model (the lines that show it keep the raw operands), but not its failure: the
  true division raises \<open>OverflowError\<close> when the quotient is beyond the floats, and so
  does the conversion of the base height for the addition.  An integer is beyond the floats
  from \<open>2 ^ 1024 - 2 ^ 970\<close> on, halfway between the largest float and \<open>2 ^ 1024\<close>.
  \<open>raw_to_speed\<close> divides a signed 16-bit value by 100 and cannot fail.
\<close>

definition float_limit :: int where
  "float_limit = 2 ^ 1024 - 2 ^ 970"

definition raw_to_mm_raises :: "UnitConverter \<Rightarrow> int \<Rightarrow> bool" where
  "raw_to_mm_raises uc raw =
     (10 * float_limit \<le> \<bar>raw\<bar> \<or> float_limit \<le> \<bar>base_height uc\<bar>)"

definition raw_to_mm_checked :: "UnitConverter \<Rightarrow> int \<Rightarrow> unit act" where
  "raw_to_mm_checked uc raw =
     (if raw_to_mm_raises uc raw then raise OverflowError else return ())"

section \<open>struct.pack and struct.unpack\<close>

text \<open>\<open>struct.pack("<H", n)\<close>: two bytes, low byte first; \<open>struct.error\<close> outside
  \<open>[0, 65535]\<close>.\<close>

definition pack_H :: "int \<Rightarrow> pyexc + byte list" where
  "pack_H n =
     (if 0 \<le> n \<and> n \<le> 65535
      then Inr [word_of_int (n mod 256), word_of_int (n div 256)]
      else Inl StructError)"

text \<open>\<open>struct.unpack("<Hh", data)\<close>: an unsigned and a signed 16-bit integer from
  exactly four bytes.\<close>

definition unpack_Hh :: "byte list \<Rightarrow> pyexc + (int \<times> int)" where
  "unpack_Hh data =
     (case data of
        [b0, b1, b2, b3] \<Rightarrow>
          (let h = uint b0 + 256 * uint b1;
               v = uint b2 + 256 * uint b3
           in Inr (h, if 32768 \<le> v then v - 65536 else v))
      | _ \<Rightarrow> Inl StructError)"

definition stop_command :: "byte list" where
  "stop_command = [255, 0]"

definition wake_command :: "byte list" where
  "wake_command = [254, 0]"

section \<open>bluetooth.py: BluetoothAdapter\<close>

definition read_gatt_char :: "device \<Rightarrow> endpoint \<Rightarrow> byte list act" where
  "read_gatt_char dev uuid s =
     (let s' = s\<lparr>trace := trace s @ [Gatt_Read uuid]\<rparr>
      in case read_reply dev (trace s') of
           Inl e \<Rightarrow> (Raised e, s')
         | Inr data \<Rightarrow> (Returned data, s'))"

definition write_gatt_char :: "device \<Rightarrow> endpoint \<Rightarrow> byte list \<Rightarrow> unit act" where
  "write_gatt_char dev uuid data s =
     (let s' = s\<lparr>trace := trace s @ [Gatt_Write uuid data]\<rparr>
      in case write_reply dev (trace s') of
           Some e \<Rightarrow> (Raised e, s')
         | None \<Rightarrow> (Returned (), s'))"

definition read_height_speed :: "device \<Rightarrow> (int \<times> int) act" where
  "read_height_speed dev =
     and_then (read_gatt_char dev UUID_HEIGHT)
       (\<lambda>data s. case unpack_Hh data of
                    Inl e \<Rightarrow> (Raised e, s)
                  | Inr hv \<Rightarrow> (Returned hv, s))"

definition get_height_speed :: "device \<Rightarrow> (int \<times> int) act" where
  "get_height_speed dev = read_height_speed dev"

definition wake_up :: "device \<Rightarrow> unit act" where
  "wake_up dev = write_gatt_char dev UUID_COMMAND wake_command"

definition move_to_target :: "device \<Rightarrow> int \<Rightarrow> unit act" where
  "move_to_target dev target s =
     (case pack_H target of
        Inl e \<Rightarrow> (Raised e, s)
      | Inr encoded_target \<Rightarrow> write_gatt_char dev UUID_REFERENCE_INPUT encoded_target s)"

text \<open>\<open>stop\<close> swallows a \<open>BleakError\<close> of the write and nothing else.\<close>

definition stop :: "device \<Rightarrow> unit act" where
  "stop dev s =
     (case write_gatt_char dev UUID_COMMAND stop_command (s\<lparr>trace := trace s @ [Call Stop]\<rparr>) of
        (Raised BleakError, s') \<Rightarrow> (Returned (), s')
      | r \<Rightarrow> r)"

definition subscribe :: "device \<Rightarrow> endpoint \<Rightarrow> unit act" where
  "subscribe dev uuid s =
     (let s' = s\<lparr>trace := trace s @ [Start_Notify uuid]\<rparr>
      in case notify_reply dev (trace s') of
           Some e \<Rightarrow> (Raised e, s')
         | None \<Rightarrow> (Returned (), s'))"

text \<open>
  The loop of \<open>move_to\<close>.  The first argument bounds the number of iterations the model
  follows; when it is used up and the loop condition still holds the result is
  \<open>Running\<close>.  The loop reads \<open>height\<close> and \<open>speed\<close> and logs them, which converts the
  height with \<open>raw_to_mm\<close>; the variable \<open>current_height\<close> of its condition is not
  assigned in the body.
\<close>

fun move_to_loop :: "nat \<Rightarrow> device \<Rightarrow> UnitConverter \<Rightarrow> int \<Rightarrow> int \<Rightarrow> unit act" where
  "move_to_loop 0 dev uc current_height target s =
     (if current_height < target then (Running, s) else (Returned (), s))"
| "move_to_loop (Suc fuel) dev uc current_height target s =
     (if current_height < target then
        and_then (move_to_target dev target) (\<lambda>_.
        and_then (emit (Sleep_ms 500)) (\<lambda>_.
        and_then (get_height_speed dev) (\<lambda>(height, speed).
        and_then (raw_to_mm_checked uc height) (\<lambda>_.
        and_then (emit (Log (Height_Speed height speed))) (\<lambda>_.
        move_to_loop fuel dev uc current_height target))))) s
      else (Returned (), s))"

definition move_to :: "nat \<Rightarrow> device \<Rightarrow> UnitConverter \<Rightarrow> int \<Rightarrow> unit act" where
  "move_to fuel dev uc target =
     and_then (read_height_speed dev) (\<lambda>(initial_height, speed).
       if initial_height = target then (\<lambda>s. (Returned (), s))
       else
         and_then (wake_up dev) (\<lambda>_.
         and_then (stop dev) (\<lambda>_.
         move_to_loop fuel dev uc initial_height target)))"


subsection \<open>Python builtins used by \<open>run_command\<close>\<close>

text \<open>Truth value of a Python object, and of the result of \<open>dict.get\<close>.\<close>

fun truthy :: "pyval \<Rightarrow> bool" where
  "truthy PNone = False"
| "truthy (PBool b) = b"
| "truthy (PInt n) = (n \<noteq> 0)"
| "truthy (PStr s) = (s \<noteq> [])"
| "truthy (PDict d) = (d \<noteq> [])"

text \<open>\<open>d.get(k)\<close>: \<open>None\<close> for a key that is not there.\<close>

definition dict_get :: "config \<Rightarrow> string \<Rightarrow> pyval" where
  "dict_get cfg k = (case cfg k of None \<Rightarrow> PNone | Some v \<Rightarrow> v)"

text \<open>
  \<open>int(s)\<close> on a string, as CPython 3.11 does it by default.  A string is a list of
  characters with code points below 256.  If one of them is not ASCII, the string is first
  rewritten: a character from 127 on becomes a blank when it is a Unicode space (\<open>0x85\<close>
  and \<open>0xA0\<close> in this range) and \<open>?\<close> otherwise, no character of this range being a
  decimal digit.  Then blanks in the sense of C (\<open>0x09\<close> to \<open>0x0D\<close> and \<open>0x20\<close>) are
  dropped at both ends, a sign may follow, then decimal digits, with single underscores
  allowed between two digits, and no more than 4300 digits.  \<open>None\<close> is the
  \<open>ValueError\<close>.
\<close>

definition is_ascii :: "string \<Rightarrow> bool" where
  "is_ascii s = (\<forall>c \<in> set s. (of_char c :: nat) < 128)"

definition to_ascii :: "string \<Rightarrow> string" where
  "to_ascii s =
     (if is_ascii s then s
      else map (\<lambda>c. if (of_char c :: nat) < 127 then c
                    else if c = CHR 0x85 \<or> c = CHR 0xA0 then CHR 0x20
                    else CHR ''?'') s)"

definition is_space :: "char \<Rightarrow> bool" where
  "is_space c =
     (c \<in> set [CHR 0x09, CHR 0x0A, CHR 0x0B, CHR 0x0C, CHR 0x0D, CHR 0x20])"

definition strip :: "string \<Rightarrow> string" where
  "strip s = rev (dropWhile is_space (rev (dropWhile is_space s)))"

definition is_digit :: "char \<Rightarrow> bool" where
  "is_digit c = (c \<in> set ''0123456789'')"

definition digit_value :: "char \<Rightarrow> int" where
  "digit_value c = int (of_char c) - 48"

fun parse_digits :: "string \<Rightarrow> int \<Rightarrow> int option" where
  "parse_digits [] acc = Some acc"
| "parse_digits (c # cs) acc =
     (if is_digit c then parse_digits cs (acc * 10 + digit_value c)
      else if c = CHR ''_'' then
        (case cs of
           [] \<Rightarrow> None
         | d # ds \<Rightarrow>
             if is_digit d then parse_digits ds (acc * 10 + digit_value d) else None)
      else None)"

definition max_str_digits :: nat where
  "max_str_digits = 4300"

definition parse_unsigned :: "string \<Rightarrow> int option" where
  "parse_unsigned s =
     (case s of
        [] \<Rightarrow> None
      | c # cs \<Rightarrow>
          if is_digit c \<and> length (filter is_digit s) \<le> max_str_digits
          then parse_digits cs (digit_value c) else None)"

definition py_int :: "string \<Rightarrow> int option" where
  "py_int s =
     (case strip (to_ascii s) of
        [] \<Rightarrow> None
      | c # cs \<Rightarrow>
          if c = CHR ''-'' then map_option uminus (parse_unsigned cs)
          else if c = CHR ''+'' then parse_unsigned cs
          else parse_unsigned (c # cs))"

text \<open>\<open>int(v)\<close> on a configuration value.\<close>

fun int_of_pyval :: "pyval \<Rightarrow> pyexc + int" where
  "int_of_pyval (PInt n) = Inr n"
| "int_of_pyval (PBool b) = Inr (if b then 1 else 0)"
| "int_of_pyval (PStr s) = (case py_int s of None \<Rightarrow> Inl ValueError | Some n \<Rightarrow> Inr n)"
| "int_of_pyval PNone = Inl TypeError"
| "int_of_pyval (PDict _) = Inl TypeError"

text \<open>
  \<open>str(v)\<close>, which a \<open>{}\<close> field of \<open>format\<close> or of an f-string applies to its value,
  raises \<open>ValueError\<close> for an integer of more than 4300 digits, also inside a dict.
\<close>

fun str_raises :: "pyval \<Rightarrow> bool" where
  "str_raises (PInt n) = (10 ^ max_str_digits \<le> \<bar>n\<bar>)"
| "str_raises (PDict d) = (\<exists>v \<in> snd ` set d. str_raises v)"
| "str_raises _ = False"

definition str_checked :: "pyval \<Rightarrow> unit act" where
  "str_checked v = (if str_raises v then raise ValueError else return ())"

text \<open>A number as Python arithmetic and comparison see it (\<open>bool\<close> is a subclass of
  \<open>int\<close>); anything else makes them raise \<open>TypeError\<close>.\<close>

fun as_number :: "pyval \<Rightarrow> int option" where
  "as_number (PInt n) = Some n"
| "as_number (PBool b) = Some (if b then 1 else 0)"
| "as_number _ = None"

text \<open>\<open>config.get("favourites", {}).get(key)\<close>: the favourites are a dict with string
  keys, so a key of another type is not found; a dict as key is unhashable, and \<open>get\<close>
  on anything but a dict is an \<open>AttributeError\<close>.\<close>

definition favourites_of :: "config \<Rightarrow> pyval" where
  "favourites_of cfg = (case cfg ''favourites'' of None \<Rightarrow> PDict [] | Some v \<Rightarrow> v)"

definition favourites_get :: "config \<Rightarrow> pyval \<Rightarrow> pyexc + pyval" where
  "favourites_get cfg key =
     (case favourites_of cfg of
        PDict d \<Rightarrow>
          (case key of
             PDict _ \<Rightarrow> Inl TypeError
           | PStr k \<Rightarrow> Inr (case map_of d k of None \<Rightarrow> PNone | Some v \<Rightarrow> v)
           | _ \<Rightarrow> Inr PNone)
      | _ \<Rightarrow> Inl AttributeError)"

subsection \<open>\<open>run_command\<close>\<close>

text \<open>The tail of \<open>run_command\<close>: the report after the branch, guarded by
  \<open>if target\<close>; \<open>None\<close> and \<open>0\<close> are both false.  The line converts the height read
  and then the target with \<open>raw_to_mm\<close>.\<close>

definition report_final :: "device \<Rightarrow> UnitConverter \<Rightarrow> int option \<Rightarrow> unit act" where
  "report_final dev uc target =
     (case target of
        None \<Rightarrow> return ()
      | Some t \<Rightarrow>
          if t \<noteq> 0 then
            and_then (read_height_speed dev) (\<lambda>(final_height, speed).
            and_then (raw_to_mm_checked uc final_height) (\<lambda>_.
            and_then (raw_to_mm_checked uc t) (\<lambda>_.
            emit (Log (Final_Height final_height t)))))
          else return ())"

text \<open>The handler \<open>except ValueError\<close> of \<open>run_command\<close>: log and return.\<close>

definition not_valid :: "pyval \<Rightarrow> unit act" where
  "not_valid move_to_value =
     and_then (str_checked move_to_value) (\<lambda>_.
     emit (Log (Text ''Not a valid height or favourite position: {}'' [move_to_value])))"

text \<open>
  \<open>run_command(config, log)\<close>.  The \<open>watch\<close> branch subscribes and then waits on a
  future that is never resolved.  In the \<open>move_to\<close> branch a favourite that is found
  and true wins; otherwise the value goes through \<open>int\<close> and the line
  \<open>Moving to height\<close> is logged inside a \<open>try\<close> whose only handler is for
  \<open>ValueError\<close>.  \<open>config["move_to"]\<close> is read only where \<open>config.get("move_to")\<close>
  was true, so the key is there.
\<close>

definition run_command :: "nat \<Rightarrow> device \<Rightarrow> UnitConverter \<Rightarrow> config \<Rightarrow> unit act" where
  "run_command fuel dev uc cfg =
     and_then (read_height_speed dev) (\<lambda>(initial_height, speed).
     and_then (raw_to_mm_checked uc initial_height) (\<lambda>_.
     and_then (emit (Log (Height_mm initial_height))) (\<lambda>_.
       if truthy (dict_get cfg ''watch'') then
         and_then (emit (Log (Text ''Watching for changes to desk height and speed'' []))) (\<lambda>_.
         and_then (subscribe dev UUID_HEIGHT) (\<lambda>_ s. (Running, s)))
       else if truthy (dict_get cfg ''move_to'') then
         (case favourites_get cfg (dict_get cfg ''move_to'') of
            Inl e \<Rightarrow> raise e
          | Inr favourite_value \<Rightarrow>
              if truthy favourite_value then
                (case as_number favourite_value of
                   None \<Rightarrow> raise TypeError
                 | Some mm \<Rightarrow>
                     and_then (str_checked (dict_get cfg ''move_to'')) (\<lambda>_.
                     and_then (emit (Log (Text ''Moving to favourite height: {}''
                                               [dict_get cfg ''move_to'']))) (\<lambda>_.
                     and_then (move_to fuel dev uc (mm_to_raw uc mm)) (\<lambda>_.
                     report_final dev uc (Some (mm_to_raw uc mm))))))
              else
                (case int_of_pyval (dict_get cfg ''move_to'') of
                   Inl ValueError \<Rightarrow> not_valid (dict_get cfg ''move_to'')
                 | Inl e \<Rightarrow> raise e
                 | Inr mm \<Rightarrow>
                     if str_raises (dict_get cfg ''move_to'')
                     then not_valid (dict_get cfg ''move_to'')
                     else
                       and_then (emit (Log (Text ''Moving to height: {}''
                                                 [dict_get cfg ''move_to'']))) (\<lambda>_.
                       and_then (move_to fuel dev uc (mm_to_raw uc mm)) (\<lambda>_.
                       report_final dev uc (Some (mm_to_raw uc mm))))))
       else report_final dev uc None)))"

subsection \<open>\<open>connect\<close>, \<open>disconnect\<close> and \<open>scan\<close>\<close>

definition emit_all :: "event list \<Rightarrow> unit act" where
  "emit_all es s = (Returned (), s\<lparr>trace := trace s @ es\<rparr>)"

text \<open>\<open>d[k]\<close>: \<open>KeyError\<close> for a key that is not there.\<close>

definition subscript :: "config \<Rightarrow> string \<Rightarrow> pyval act" where
  "subscript cfg k s = (case cfg k of None \<Rightarrow> (Raised KeyError, s) | Some v \<Rightarrow> (Returned v, s))"

text \<open>The handler of \<open>connect\<close>: a \<open>BleakError\<close> is reported and ends the process
  through \<open>exit(1)\<close>; any other exception passes.\<close>

definition connect_handler :: "'a act \<Rightarrow> 'a act" where
  "connect_handler m s =
     (case m s of
        (Raised BleakError, s') \<Rightarrow>
          (Raised (SystemExit 1),
           s'\<lparr>trace := trace s' @ [Print (Text ''Connecting failed'' []),
                                    Print (Exception_Text ''{}'' BleakError)]\<rparr>)
      | r \<Rightarrow> r)"

definition client_connect :: "device \<Rightarrow> unit act" where
  "client_connect dev s =
     (let s' = s\<lparr>trace := trace s @ [Client_Connect]\<rparr>
      in case connect_reply dev (trace s') of
           Some e \<Rightarrow> (Raised e, s')
         | None \<Rightarrow> (Returned (), s'))"

definition client_get_services :: "device \<Rightarrow> string list act" where
  "client_get_services dev s =
     (let s' = s\<lparr>trace := trace s @ [Client_Get_Services]\<rparr>
      in case services_reply dev (trace s') of
           Inl e \<Rightarrow> (Raised e, s')
         | Inr ls \<Rightarrow> (Returned ls, s'))"

text \<open>\<open>if not self.client: self.client = BleakClient(...)\<close>.\<close>

definition create_client :: "config \<Rightarrow> unit act" where
  "create_client cfg s =
     (if client s = None then
        and_then (subscript cfg ''mac_address'') (\<lambda>_.
        and_then (subscript cfg ''adapter_name'') (\<lambda>_ s'.
          (Returned (), s'\<lparr>client := Some ()\<rparr>))) s
      else (Returned (), s))"

definition connect :: "device \<Rightarrow> config \<Rightarrow> unit act" where
  "connect dev cfg =
     connect_handler
       (and_then (emit (Print (Text ''Connecting'' []))) (\<lambda>_.
        and_then (create_client cfg) (\<lambda>_.
        and_then (subscript cfg ''connection_timeout'') (\<lambda>_.
        and_then (client_connect dev) (\<lambda>_.
        and_then (subscript cfg ''mac_address'') (\<lambda>mac.
        and_then (str_checked mac) (\<lambda>_.
        and_then (emit (Print (Text ''Connected {}'' [mac]))) (\<lambda>_.
        and_then (client_get_services dev) (\<lambda>services.
        emit_all (Print (Text ''Received the services:'' [])
                  # map (\<lambda>l. Print (Text l [])) services))))))))))"

definition disconnect :: "device \<Rightarrow> unit act" where
  "disconnect dev s =
     (let s' = s\<lparr>trace := trace s @ [Call Disconnect]\<rparr>
      in if is_connected dev (trace s') then
           (let s'' = s'\<lparr>trace := trace s' @ [Client_Disconnect]\<rparr>
            in case disconnect_reply dev (trace s'') of
                 Some e \<Rightarrow> (Raised e, s'')
               | None \<Rightarrow> (Returned (), s''))
         else (Returned (), s'))"

definition scan :: "host \<Rightarrow> config \<Rightarrow> unit act" where
  "scan h cfg =
     and_then (emit (Print (Text ''Scanning'' []))) (\<lambda>_.
     and_then (subscript cfg ''adapter_name'') (\<lambda>adapter_name.
     and_then (subscript cfg ''scan_timeout'') (\<lambda>_ s.
       (let s' = s\<lparr>trace := trace s @ [Scan]\<rparr>
        in case scan_reply h (trace s') of
             Inl e \<Rightarrow> (Raised e, s')
           | Inr devices \<Rightarrow>
               and_then (str_checked adapter_name) (\<lambda>_.
               emit_all (Print (Text ''Found {} devices using {}''
                                     [PInt (int (length devices)), adapter_name])
                         # map (\<lambda>d. Print (Text d [])) devices)) s'))))"

section \<open>config.py: UserConfig\<close>

definition DEFAULT_CONFIG :: config where
  "DEFAULT_CONFIG =
     map_of [(''mac_address'', PStr []),
             (''base_height'', PInt 620),
             (''movement_range'', PInt 650),
             (''adapter_name'', PStr ''hci0''),
             (''scan_timeout'', PInt 5),
             (''connection_timeout'', PInt 10),
             (''movement_timeout'', PInt 30),
             (''server_address'', PStr ''127.0.0.1''),
             (''server_port'', PInt 9123),
             (''favourites'', PDict [])]"

text \<open>What is found at the path \<open>args["config"]\<close>: no file, a file that is not YAML,
  or a YAML mapping.\<close>

datatype config_file = No_File | Bad_Yaml | Yaml config

text \<open>
  \<open>UserConfig.__init__\<close>: the defaults, updated with the file when there is one, then
  with the command line arguments.  The constructor ends there; it does not call
  \<open>_validate_config\<close>.  The result comes with what was printed.
\<close>

definition UserConfig_init :: "config \<Rightarrow> config_file \<Rightarrow> (pyexc + config) \<times> event list" where
  "UserConfig_init args file =
     (case args ''config'' of
        None \<Rightarrow> (Inl KeyError, [])
      | Some _ \<Rightarrow>
          (case file of
             No_File \<Rightarrow>
               (Inr (DEFAULT_CONFIG ++ args),
                [Print (Text ''No custom config file provided or not found!'' [])])
           | Bad_Yaml \<Rightarrow>
               (Inl (SystemExit 1),
                [Print (Text ''Reading config.yaml failed:'' []), Print (Exception_Text ''{}'' YAMLError)])
           | Yaml config_file \<Rightarrow> (Inr (DEFAULT_CONFIG ++ config_file ++ args), [])))"

text \<open>\<open>str.upper\<close> on ASCII.\<close>

definition upper_char :: "char \<Rightarrow> char" where
  "upper_char c =
     (let n = (of_char c :: nat) in if 97 \<le> n \<and> n \<le> 122 then char_of (n - 32) else c)"

definition upper :: "string \<Rightarrow> string" where
  "upper s = map upper_char s"

text \<open>\<open>_log_error\<close>: print and \<open>exit(1)\<close>.\<close>

definition log_error :: "log_line \<Rightarrow> (pyexc + 'a) \<times> event list" where
  "log_error message = (Inl (SystemExit 1), [Print message])"

text \<open>
  One of the two offset blocks of \<open>_validate_config\<close>, for the key \<open>offset_key\<close>:
  \<open>0 <= offset <= movement_range\<close> is a chained comparison, so the range is compared
  only when \<open>0 <= offset\<close> holds.
\<close>

definition validate_offset ::
  "string \<Rightarrow> string \<Rightarrow> string \<Rightarrow> config \<Rightarrow> (pyexc + config) \<times> event list" where
  "validate_offset offset_key height_key message cfg =
     (case cfg offset_key of
        None \<Rightarrow> (Inr cfg, [])
      | Some offset \<Rightarrow>
          (case as_number offset of
             None \<Rightarrow> (Inl TypeError, [])
           | Some off \<Rightarrow>
               (case cfg ''movement_range'' of
                  None \<Rightarrow> (Inl KeyError, [])
                | Some movement_range \<Rightarrow>
                    (case (if 0 \<le> off then as_number movement_range else Some 0) of
                       None \<Rightarrow> (Inl TypeError, [])
                     | Some r \<Rightarrow>
                         if \<not> (0 \<le> off \<and> off \<le> r) then
                           (if str_raises movement_range then (Inl ValueError, [])
                            else log_error (Text message [movement_range]))
                         else
                           (case cfg ''base_height'' of
                              None \<Rightarrow> (Inl KeyError, [])
                            | Some b \<Rightarrow>
                                (case as_number b of
                                   None \<Rightarrow> (Inl TypeError, [])
                                 | Some base \<Rightarrow>
                                     (Inr (cfg(height_key \<mapsto> PInt (base + off))), [])))))))"

definition validate_config :: "bool \<Rightarrow> config \<Rightarrow> (pyexc + config) \<times> event list" where
  "validate_config on_win32 cfg =
     (case cfg ''mac_address'' of
        None \<Rightarrow> (Inl KeyError, [])
      | Some mac \<Rightarrow>
          if \<not> truthy mac then log_error (Text ''Mac address must be provided'' [])
          else
            (case validate_offset ''sit_height_offset'' ''sit_height''
                    ''Sit height offset must be within [0, {}]'' cfg of
               (Inl e, out) \<Rightarrow> (Inl e, out)
             | (Inr cfg1, _) \<Rightarrow>
                 (case validate_offset ''stand_height_offset'' ''stand_height''
                         ''Stand height offset must be within [0, {}]'' cfg1 of
                    (Inl e, out) \<Rightarrow> (Inl e, out)
                  | (Inr cfg2, _) \<Rightarrow>
                      (case mac of
                         PStr m \<Rightarrow>
                           (let cfg3 = cfg2(''mac_address'' \<mapsto> PStr (upper m))
                            in (Inr (if on_win32
                                     then cfg3(''adapter_name'' \<mapsto> PStr ''default adapter'')
                                     else cfg3), []))
                       | _ \<Rightarrow> (Inl AttributeError, [])))))"

section \<open>controller.py: LinakController\<close>

text \<open>
  \<open>forward_command\<close>, \<open>run_server\<close> and \<open>run_tcp_server\<close> talk to the network; what
  the host answers decides how they end.  The two servers wait in a loop without exit
  (\<open>while True\<close>, \<open>serve_forever\<close>), so they end by an exception or not at all.  Both
  register their handler as \<open>partial(handler, client, ...)\<close>, which passes more positional
  arguments than the handler takes: a call of the handler raises \<open>TypeError\<close> inside the
  server before the body of the handler runs, so serving invokes neither \<open>stop\<close> nor
  \<open>disconnect\<close>.
\<close>

definition forward_command :: "host \<Rightarrow> unit act" where
  "forward_command h s =
     (let s' = s\<lparr>trace := trace s @ [Forward]\<rparr>
      in case forward_reply h (trace s') of
           Some e \<Rightarrow> (Raised e, s')
         | None \<Rightarrow> (Returned (), s'))"

definition run_server :: "host \<Rightarrow> unit act" where
  "run_server h s =
     (let s' = s\<lparr>trace := trace s @ [Serve_Web]\<rparr>
      in case server_reply h (trace s') of
           Some e \<Rightarrow> (Raised e, s')
         | None \<Rightarrow> (Running, s'))"

definition run_tcp_server :: "host \<Rightarrow> unit act" where
  "run_tcp_server h s =
     (let s' = s\<lparr>trace := trace s @ [Serve_Tcp]\<rparr>
      in case tcp_server_reply h (trace s') of
           Some e \<Rightarrow> (Raised e, s')
         | None \<Rightarrow> (Running, s'))"

text \<open>
  The \<open>try\<close> block of \<open>run\<close>.  Its last branch is the call
  \<open>self.bluetooth_adapter.run_command()\<close>, without the required argument \<open>config\<close>:
  the call raises \<open>TypeError\<close> before the body of \<open>run_command\<close> starts.
\<close>

definition run_body :: "device \<Rightarrow> host \<Rightarrow> config \<Rightarrow> unit act" where
  "run_body dev h cfg =
     and_then (subscript cfg ''forward'') (\<lambda>forward.
       if truthy forward then forward_command h
       else
         and_then (subscript cfg ''scan_adapter'') (\<lambda>scan_adapter.
           if truthy scan_adapter then scan h cfg
           else
             and_then (connect dev cfg) (\<lambda>_.
             and_then (subscript cfg ''server'') (\<lambda>server.
               if truthy server then run_server h
               else
                 and_then (subscript cfg ''tcp_server'') (\<lambda>tcp_server.
                   if truthy tcp_server then run_tcp_server h
                   else raise TypeError)))))"

text \<open>The handlers of \<open>run\<close>: \<open>KeyboardInterrupt\<close> is raised again, an \<open>Exception\<close>
  is printed and dropped, anything else passes.\<close>

definition run_handlers :: "unit act \<Rightarrow> unit act" where
  "run_handlers body s =
     (case body s of
        (Raised e, s') \<Rightarrow>
          if e = KeyboardInterrupt then (Raised e, s')
          else if is_Exception e then
            (Returned (),
             s'\<lparr>trace := trace s' @ [Print (Exception_Text ''Something unexpected went wrong: {}'' e),
                                      Print (Exception_Text ''{}'' e)]\<rparr>)
          else (Raised e, s')
      | r \<Rightarrow> r)"

text \<open>The \<open>finally\<close> block of \<open>run\<close>, guarded by \<open>if self.bluetooth_adapter.client\<close>.\<close>

definition run_cleanup :: "device \<Rightarrow> unit act" where
  "run_cleanup dev s =
     (if client s \<noteq> None then
        and_then (emit (Print (Text ''Disconnecting'' []))) (\<lambda>_.
        and_then (stop dev) (\<lambda>_.
        and_then (disconnect dev) (\<lambda>_.
        emit (Print (Text ''Disconnected!'' []))))) s
      else (Returned (), s))"

text \<open>\<open>try: ... finally: ...\<close>: the block runs however the body ends, and an exception of
  the block replaces the outcome of the body.  A body that never ends never reaches it.\<close>

definition try_finally :: "'a act \<Rightarrow> unit act \<Rightarrow> 'a act" where
  "try_finally body cleanup s =
     (case body s of
        (Running, s') \<Rightarrow> (Running, s')
      | (r, s') \<Rightarrow>
          (case cleanup s' of
             (Returned _, s'') \<Rightarrow> (r, s'')
           | (Raised e, s'') \<Rightarrow> (Raised e, s'')
           | (Running, s'') \<Rightarrow> (Running, s'')))"

definition run :: "device \<Rightarrow> host \<Rightarrow> config \<Rightarrow> unit act" where
  "run dev h cfg = try_finally (run_handlers (run_body dev h cfg)) (run_cleanup dev)"

text \<open>
  \<open>LinakController.__init__\<close>: build the configuration, then \<open>asyncio.run(self.run())\<close>
  on a fresh adapter.  The handler around it names
  \<open>(KeyboardInterrupt | CancelledError)\<close>, which is not an exception class, so matching
  any exception that leaves \<open>run\<close> against it raises \<open>TypeError\<close>.
\<close>

definition LinakController_init ::
  "config \<Rightarrow> config_file \<Rightarrow> device \<Rightarrow> host \<Rightarrow> unit result \<times> BluetoothAdapter" where
  "LinakController_init args file dev h =
     (case UserConfig_init args file of
        (Inl e, out) \<Rightarrow> (Raised e, \<lparr>client = None, trace = out\<rparr>)
      | (Inr user_config, out) \<Rightarrow>
          (case run dev h user_config \<lparr>client = None, trace = out\<rparr> of
             (Raised e, s) \<Rightarrow> (Raised TypeError, s)
           | r \<Rightarrow> r))"

text \<open>The exit status of the process: \<open>0\<close> after a normal end, the argument of
  \<open>exit\<close>, \<open>1\<close> for an exception nobody handles, none while it runs.\<close>

fun exit_status :: "unit result \<Rightarrow> int option" where
  "exit_status (Returned _) = Some 0"
| "exit_status (Raised (SystemExit n)) = Some n"
| "exit_status (Raised _) = Some 1"
| "exit_status Running = None"

text \<open>
  The relay handlers \<open>run_forwarded_command\<close> and \<open>run_tcp_forwarded_command\<close> merge
  the received mapping over the configuration, \<open>{**config, **forwarded_config}\<close>, and
  hand the result to \<open>run_command\<close>.
\<close>

definition merged_config :: "config \<Rightarrow> config \<Rightarrow> config" where
  "merged_config user_config forwarded_config = user_config ++ forwarded_config"

definition run_forwarded_command ::
  "nat \<Rightarrow> device \<Rightarrow> UnitConverter \<Rightarrow> config \<Rightarrow> config \<Rightarrow> unit act" where
  "run_forwarded_command fuel dev uc user_config forwarded_config =
     and_then (run_command fuel dev uc (merged_config user_config forwarded_config)) (\<lambda>_.
     emit (Sleep_ms 1000))"

section \<open>Observations on a history\<close>

fun is_write :: "event \<Rightarrow> bool" where
  "is_write (Gatt_Write _ _) = True"
| "is_write _ = False"

fun is_reference_write :: "event \<Rightarrow> bool" where
  "is_reference_write (Gatt_Write UUID_REFERENCE_INPUT _) = True"
| "is_reference_write _ = False"

fun is_read :: "event \<Rightarrow> bool" where
  "is_read (Gatt_Read _) = True"
| "is_read _ = False"

definition writes :: "event list \<Rightarrow> event list" where
  "writes tr = filter is_write tr"

definition reference_writes :: "event list \<Rightarrow> event list" where
  "reference_writes tr = filter is_reference_write tr"

definition reads :: "event list \<Rightarrow> event list" where
  "reads tr = filter is_read tr"

text \<open>The lines given to the log sink, in order.\<close>

fun logged :: "event list \<Rightarrow> log_line list" where
  "logged [] = []"
| "logged (Log l # es) = l # logged es"
| "logged (_ # es) = logged es"

fun is_height_line :: "log_line \<Rightarrow> bool" where
  "is_height_line (Height_mm _) = True"
| "is_height_line _ = False"

fun is_final_line :: "log_line \<Rightarrow> bool" where
  "is_final_line (Final_Height _ _) = True"
| "is_final_line _ = False"

section \<open>Peripherals to run the model on\<close>

text \<open>The four bytes of a telemetry frame for a position and a speed.\<close>

definition frame :: "int \<Rightarrow> int \<Rightarrow> byte list" where
  "frame h v =
     [word_of_int (h mod 256), word_of_int (h div 256 mod 256),
      word_of_int (v mod 256), word_of_int (v div 256 mod 256)]"

text \<open>A desk that accepts everything and reports the position given by \<open>pos\<close> from the
  history so far, at speed 0.\<close>

definition desk :: "(event list \<Rightarrow> int) \<Rightarrow> device" where
  "desk pos =
     \<lparr>read_reply = (\<lambda>tr. Inr (frame (pos tr) 0)),
      write_reply = (\<lambda>_. None),
      notify_reply = (\<lambda>_. None),
      connect_reply = (\<lambda>_. None),
      services_reply = (\<lambda>_. Inr []),
      is_connected = (\<lambda>_. True),
      disconnect_reply = (\<lambda>_. None)\<rparr>"

text \<open>A desk that stands still at \<open>h\<close>.\<close>

definition desk_at :: "int \<Rightarrow> device" where
  "desk_at h = desk (\<lambda>_. h)"

text \<open>A desk that is at \<open>h0\<close> when first read and at \<open>h1\<close> at every later read.\<close>

definition desk_moving :: "int \<Rightarrow> int \<Rightarrow> device" where
  "desk_moving h0 h1 = desk (\<lambda>tr. if length (reads tr) \<le> 1 then h0 else h1)"



definition fresh :: BluetoothAdapter where
  "fresh = \<lparr>client = None, trace = []\<rparr>"

text \<open>What \<open>get_parsed_args\<close> returns for a command line: the flags are always there,
  \<open>False\<close> unless given.\<close>

definition parsed_args :: "(string \<times> pyval) list \<Rightarrow> config" where
  "parsed_args given =
     map_of [(''forward'', PBool False), (''debug'', PBool False), (''watch'', PBool False),
             (''scan_adapter'', PBool False), (''server'', PBool False),
             (''tcp_server'', PBool False), (''config'', PStr ''config.yaml'')]
     ++ map_of given"

text \<open>A configuration as the relay server holds it: the defaults and a command line that
  names the desk.\<close>

definition base_config :: config where
  "base_config = DEFAULT_CONFIG ++ parsed_args [(''mac_address'', PStr ''AA:BB:CC:DD:EE:FF'')]"

section \<open>Rendering a line\<close>

text \<open>\<open>str\<close> of a value, as \<open>format\<close> and f-strings apply it; the \<open>repr\<close> of a dict is
  not modelled (\<open>None\<close>).\<close>

fun show_nat :: "nat \<Rightarrow> string" where
  "show_nat n =
     (if n < 10 then [char_of (48 + n)]
      else show_nat (n div 10) @ [char_of (48 + n mod 10)])"

definition show_int :: "int \<Rightarrow> string" where
  "show_int i = (if i < 0 then CHR ''-'' # show_nat (nat (- i)) else show_nat (nat i))"

fun py_str :: "pyval \<Rightarrow> string option" where
  "py_str PNone = Some ''None''"
| "py_str (PBool b) = Some (if b then ''True'' else ''False'')"
| "py_str (PInt n) = Some (show_int n)"
| "py_str (PStr s) = Some s"
| "py_str (PDict _) = None"

text \<open>Fill the \<open>{}\<close> fields of a format string from left to right.\<close>

fun format_text :: "string \<Rightarrow> pyval list \<Rightarrow> string option" where
  "format_text [] vs = Some []"
| "format_text (c # cs) vs =
     (if c = CHR ''{'' then
        (case (cs, vs) of
           (d # ds, v # vs') \<Rightarrow>
             if d = CHR ''}'' then
               (case (py_str v, format_text ds vs') of
                  (Some a, Some b) \<Rightarrow> Some (a @ b)
                | _ \<Rightarrow> None)
             else None
         | _ \<Rightarrow> None)
      else map_option ((#) c) (format_text cs vs))"

text \<open>The text of a line, for the lines whose text the model determines.\<close>

fun render :: "log_line \<Rightarrow> string option" where
  "render (Text t vs) = format_text t vs"
| "render _ = None"

definition final_lines :: "event list \<Rightarrow> log_line list" where
  "final_lines tr = filter is_final_line (logged tr)"

definition height_lines :: "event list \<Rightarrow> log_line list" where
  "height_lines tr = filter is_height_line (logged tr)"



section \<open>Actions that leave an observation of the history alone\<close>

definition keeps :: "(event list \<Rightarrow> 'b) \<Rightarrow> 'a act \<Rightarrow> bool" where
  "keeps f m = (\<forall>s r s'. m s = (r, s') \<longrightarrow> f (trace s') = f (trace s))"

section \<open>Properties\<close>

subsection \<open>Evaluating the model on the example peripherals\<close>

lemma uint_byte: "0 \<le> k \<Longrightarrow> k < 256 \<Longrightarrow> uint (word_of_int k :: byte) = k"
  by (simp add: uint_word_of_int_eq take_bit_eq_mod)

lemma unpack_Hh_frame:
  assumes "0 \<le> h" and "h \<le> 65535"
  shows "unpack_Hh (frame h 0) = Inr (h, 0)"
proof -
  have a: "uint (word_of_int (h mod 256) :: byte) = h mod 256"
    by (rule uint_byte) simp_all
  have "h div 256 < 256" using assms by simp
  then have b: "uint (word_of_int (h div 256 mod 256) :: byte) = h div 256"
    using assms by (simp add: uint_byte)
  show ?thesis
    by (simp add: unpack_Hh_def frame_def Let_def a b)
qed

lemma read_height_speed_desk:
  assumes "0 \<le> pos (trace s @ [Gatt_Read UUID_HEIGHT])"
    and "pos (trace s @ [Gatt_Read UUID_HEIGHT]) \<le> 65535"
  shows "read_height_speed (desk pos) s =
     (Returned (pos (trace s @ [Gatt_Read UUID_HEIGHT]), 0),
      s\<lparr>trace := trace s @ [Gatt_Read UUID_HEIGHT]\<rparr>)"
  using assms
  by (simp add: read_height_speed_def read_gatt_char_def and_then_def Let_def desk_def
      unpack_Hh_frame)

lemma read_height_speed_desk_at:
  "0 \<le> h \<Longrightarrow> h \<le> 65535 \<Longrightarrow>
   read_height_speed (desk_at h) s =
     (Returned (h, 0), s\<lparr>trace := trace s @ [Gatt_Read UUID_HEIGHT]\<rparr>)"
  by (simp add: desk_at_def read_height_speed_desk)

lemma base_config_simps:
  "base_config ''watch'' = Some (PBool False)"
  "base_config ''favourites'' = Some (PDict [])"
  "base_config ''move_to'' = None"
  "base_config ''base_height'' = Some (PInt 620)"
  by (simp_all add: base_config_def DEFAULT_CONFIG_def parsed_args_def map_add_def)

lemmas py_int_defs =
  py_int_def to_ascii_def is_ascii_def strip_def is_space_def parse_unsigned_def is_digit_def
  digit_value_def max_str_digits_def

lemma py_int_abc: "py_int ''abc'' = None"
  by (simp add: py_int_defs)

lemma py_int_620: "py_int ''620'' = Some 620"
  by (simp add: py_int_defs)

lemma py_int_100: "py_int ''100'' = Some 100"
  by (simp add: py_int_defs)

text \<open>\<open>int\<close> does not drop the separator \<open>0x1C\<close>, does drop the no-break space
  \<open>0xA0\<close>, and takes signs, blanks and underscores where Python does.\<close>

lemma py_int_examples:
  "py_int [CHR 0x1C, CHR ''1'', CHR ''0'', CHR ''0''] = None"
  "py_int [CHR 0xA0, CHR ''1'', CHR ''0'', CHR ''0''] = Some 100"
  "py_int [CHR 0x09, CHR ''-'', CHR ''1'', CHR ''_'', CHR ''0'', CHR 0x0A] = Some (- 10)"
  "py_int ''1__0'' = None" "py_int ''_1'' = None" "py_int ''1_'' = None"
  "py_int ''+ 1'' = None" "py_int [] = None" "py_int ''0012'' = Some 12"
  by (simp_all add: py_int_defs)

lemma float_limit_large: "65535 < float_limit"
proof -
  have "(2::int) ^ 970 * 2 \<le> 2 ^ 970 * 2 ^ 54" by (intro mult_left_mono) simp_all
  then have "(2::int) ^ 970 \<le> 2 ^ 1024 - 2 ^ 970" by (simp add: power_add [symmetric])
  moreover have "(2::int) ^ 17 \<le> 2 ^ 970" by (intro power_increasing) simp_all
  ultimately show ?thesis by (simp add: float_limit_def)
qed

lemma unpack_Hh_range: "unpack_Hh data = Inr (h, v) \<Longrightarrow> 0 \<le> h \<and> h \<le> 65535"
proof -
  have b: "0 \<le> uint x \<and> uint x \<le> 255" for x :: byte
    using uint_lt2p [of x] by simp
  assume "unpack_Hh data = Inr (h, v)"
  then have "\<exists>(b0::byte) (b1::byte). h = uint b0 + 256 * uint b1"
    by (auto simp: unpack_Hh_def Let_def split: list.splits)
  then obtain b0 b1 :: byte where "h = uint b0 + 256 * uint b1" by blast
  then show ?thesis using b [of b0] b [of b1] by simp
qed

lemma read_height_speed_range:
  "read_height_speed dev s = (Returned (h, v), s1) \<Longrightarrow> 0 \<le> h \<and> h \<le> 65535"
  by (auto simp: read_height_speed_def read_gatt_char_def and_then_def Let_def
      split: sum.splits dest: unpack_Hh_range)

lemma raw_to_mm_checked_position:
  assumes "\<bar>base_height uc\<bar> < float_limit" and "0 \<le> h" and "h \<le> 65535"
  shows "raw_to_mm_checked uc h = return ()"
  using assms float_limit_large
  by (simp add: raw_to_mm_checked_def raw_to_mm_raises_def)

lemma base_620_fits: "\<bar>base_height \<lparr>base_height = 620\<rparr>\<bar> < float_limit"
  using float_limit_large by simp

lemma read_height_speed_desk_at_1000:
  "read_height_speed (desk_at 1000) fresh =
     (Returned (1000, 0), fresh\<lparr>trace := [Gatt_Read UUID_HEIGHT]\<rparr>)"
  by (simp add: read_height_speed_desk_at fresh_def)

subsection \<open>What an action adds to the history\<close>

lemma read_height_speed_trace:
  "read_height_speed dev s = (r, s') \<Longrightarrow> s' = s\<lparr>trace := trace s @ [Gatt_Read UUID_HEIGHT]\<rparr>"
  by (auto simp: read_height_speed_def read_gatt_char_def and_then_def Let_def
      split: sum.splits)

lemma logged_append: "logged (xs @ ys) = logged xs @ logged ys"
  by (induction xs rule: logged.induct) simp_all

lemma final_lines_snoc:
  "final_lines (tr @ es) = final_lines tr @ filter is_final_line (logged es)"
  by (simp add: final_lines_def logged_append)

lemma keepsI: "(\<And>s r s'. m s = (r, s') \<Longrightarrow> f (trace s') = f (trace s)) \<Longrightarrow> keeps f m"
  by (simp add: keeps_def)

lemma keepsD: "keeps f m \<Longrightarrow> m s = (r, s') \<Longrightarrow> f (trace s') = f (trace s)"
  by (simp add: keeps_def)

lemma keeps_and_then:
  assumes "keeps f m" and "\<And>x. keeps f (g x)"
  shows "keeps f (and_then m g)"
proof (rule keepsI)
  fix s r s'
  assume run: "and_then m g s = (r, s')"
  obtain r1 s1 where m: "m s = (r1, s1)" by (cases "m s")
  have 1: "f (trace s1) = f (trace s)" using keepsD [OF assms(1) m] .
  show "f (trace s') = f (trace s)"
  proof (cases r1)
    case (Returned x)
    then have "g x s1 = (r, s')" using run m by (simp add: and_then_def)
    then show ?thesis using keepsD [OF assms(2)] 1 by metis
  next
    case (Raised e)
    then show ?thesis using run m 1 by (simp add: and_then_def)
  next
    case Running
    then show ?thesis using run m 1 by (simp add: and_then_def)
  qed
qed

lemma keeps_return: "keeps f (return x)"
  by (simp add: keeps_def return_def)


lemma keeps_emit: "(\<And>tr. f (tr @ [e]) = f tr) \<Longrightarrow> keeps f (emit e)"
  by (simp add: keeps_def emit_def)

lemma keeps_write_gatt_char:
  "(\<And>tr. f (tr @ [Gatt_Write uuid data]) = f tr) \<Longrightarrow> keeps f (write_gatt_char dev uuid data)"
  by (auto simp: keeps_def write_gatt_char_def Let_def split: option.splits)

lemma keeps_read_height_speed:
  "(\<And>tr. f (tr @ [Gatt_Read UUID_HEIGHT]) = f tr) \<Longrightarrow> keeps f (read_height_speed dev)"
  by (auto simp: keeps_def dest!: read_height_speed_trace)

lemma keeps_move_to_target:
  "(\<And>tr data. f (tr @ [Gatt_Write UUID_REFERENCE_INPUT data]) = f tr)
   \<Longrightarrow> keeps f (move_to_target dev target)"
proof (rule keepsI)
  fix s r s'
  assume blind: "\<And>tr data. f (tr @ [Gatt_Write UUID_REFERENCE_INPUT data]) = f tr"
    and run: "move_to_target dev target s = (r, s')"
  show "f (trace s') = f (trace s)"
  proof (cases "pack_H target")
    case (Inl e)
    then show ?thesis using run by (simp add: move_to_target_def)
  next
    case (Inr data)
    then have "write_gatt_char dev UUID_REFERENCE_INPUT data s = (r, s')"
      using run by (simp add: move_to_target_def)
    then show ?thesis
      using keepsD [OF keeps_write_gatt_char [of f UUID_REFERENCE_INPUT data dev]] blind
      by blast
  qed
qed

lemma stop_trace:
  "stop dev s = (r, s') \<Longrightarrow>
     s' = s\<lparr>trace := trace s @ [Call Stop, Gatt_Write UUID_COMMAND stop_command]\<rparr>"
  by (auto simp: stop_def write_gatt_char_def Let_def
      split: option.splits result.splits pyexc.splits prod.splits)

lemma keeps_stop:
  "(\<And>tr. f (tr @ [Call Stop, Gatt_Write UUID_COMMAND stop_command]) = f tr) \<Longrightarrow> keeps f (stop dev)"
  by (auto simp: keeps_def dest!: stop_trace)

lemma keeps_raw_to_mm_checked: "keeps f (raw_to_mm_checked uc raw)"
  by (simp add: keeps_def raw_to_mm_checked_def raise_def return_def)


lemma keeps_final_move_to_loop: "keeps final_lines (move_to_loop fuel dev uc c t)"
proof (induction fuel)
  case 0
  show ?case by (auto simp: keeps_def split: if_splits)
next
  case (Suc fuel)
  have body: "keeps final_lines
        (and_then (move_to_target dev t) (\<lambda>_.
        and_then (emit (Sleep_ms 500)) (\<lambda>_.
        and_then (get_height_speed dev) (\<lambda>(height, speed).
        and_then (raw_to_mm_checked uc height) (\<lambda>_.
        and_then (emit (Log (Height_Speed height speed))) (\<lambda>_.
        move_to_loop fuel dev uc c t))))))"
    unfolding get_height_speed_def
    by (intro keeps_and_then keeps_move_to_target keeps_emit keeps_read_height_speed)
       (auto simp: final_lines_snoc split: prod.splits
        intro!: keeps_and_then keeps_emit keeps_raw_to_mm_checked Suc.IH)
  show ?case
    using body by (auto simp: keeps_def split: if_splits)
qed

lemma keeps_final_move_to: "keeps final_lines (move_to fuel dev uc t)"
proof -
  have rest: "keeps final_lines
      (and_then (wake_up dev) (\<lambda>_. and_then (stop dev) (\<lambda>_. move_to_loop fuel dev uc h t)))" for h
    unfolding wake_up_def
    by (intro keeps_and_then keeps_write_gatt_char keeps_stop keeps_final_move_to_loop)
       (simp_all add: final_lines_snoc)
  show ?thesis
    unfolding move_to_def
    by (intro keeps_and_then keeps_read_height_speed)
       (auto simp: final_lines_snoc keeps_def split: if_splits dest: keepsD [OF rest])
qed

lemma write_gatt_char_desk:
  "write_gatt_char (desk_at h) uuid data s
     = (Returned (), s\<lparr>trace := trace s @ [Gatt_Write uuid data]\<rparr>)"
  by (simp add: write_gatt_char_def Let_def desk_at_def desk_def)

lemma stop_desk:
  "stop (desk_at h) s
     = (Returned (), s\<lparr>trace := trace s @ [Call Stop, Gatt_Write UUID_COMMAND stop_command]\<rparr>)"
  by (simp add: stop_def write_gatt_char_desk)

lemma move_to_loop_done:
  "\<not> c < t \<Longrightarrow> move_to_loop fuel dev uc c t s = (Returned (), s)"
  by (cases fuel) simp_all

lemma move_to_down_desk_at:
  assumes "0 \<le> h" and "h \<le> 65535" and "t < h"
  shows "move_to fuel (desk_at h) uc t s =
    (Returned (), s\<lparr>trace := trace s @
       [Gatt_Read UUID_HEIGHT, Gatt_Write UUID_COMMAND wake_command, Call Stop,
        Gatt_Write UUID_COMMAND stop_command]\<rparr>)"
proof -
  have rd: "read_height_speed (desk_at h) s
      = (Returned (h, 0), s\<lparr>trace := trace s @ [Gatt_Read UUID_HEIGHT]\<rparr>)"
    using assms by (simp add: read_height_speed_desk_at)
  show ?thesis
    using assms(3)
    by (simp add: move_to_def and_then_def rd wake_up_def write_gatt_char_desk
        stop_desk move_to_loop_done desk_at_def [symmetric])
qed


subsection \<open>C9: the target must fit sixteen unsigned bits\<close>

text \<open>
  Claim C9.  \<open>move_to_target\<close> goes through only for a target in \<open>[0, 65535]\<close>.  For a
  negative target or one above 65535 the encoding raises \<open>struct.error\<close> and the history
  is the one before the call: nothing was written.  The raw value of any height below
  the base height is such a target.
\<close>

theorem move_to_target_range:
  "(target < 0 \<or> 65535 < target \<longrightarrow> move_to_target dev target s = (Raised StructError, s))
   \<and> (mm < base_height uc \<longrightarrow> mm_to_raw uc mm < 0)
   \<and> (fst (move_to_target dev target s) = Returned () \<longrightarrow> 0 \<le> target \<and> target \<le> 65535)"
  by (auto simp: move_to_target_def pack_H_def mm_to_raw_def)

theorem move_to_target_range_witness:
  "mm_to_raw \<lparr>base_height = 620\<rparr> 100 = - 5200
   \<and> move_to_target (desk_at 0) (mm_to_raw \<lparr>base_height = 620\<rparr> 100) fresh
       = (Raised StructError, fresh)
   \<and> fst (move_to_target (desk_at 0) 1000 fresh) = Returned ()"
  using move_to_target_range [of "mm_to_raw \<lparr>base_height = 620\<rparr> 100" "desk_at 0" fresh
      100 "\<lparr>base_height = 620\<rparr>"]
    move_to_target_range [of 1000 "desk_at 0" fresh 100 "\<lparr>base_height = 620\<rparr>"]
  by (simp add: mm_to_raw_def move_to_target_def pack_H_def write_gatt_char_def Let_def
      desk_at_def desk_def)

subsection \<open>C6: nothing is written when the desk is at the target\<close>

text \<open>
  Claim C6.  If the position read at the start of \<open>move_to\<close> equals the target, the call
  returns at once: the adapter is as the read left it, so the history has gained that one
  read and no write to any endpoint.
\<close>

theorem move_to_at_target:
  assumes "read_height_speed dev s = (Returned (target, speed), s')"
  shows "move_to fuel dev uc target s = (Returned (), s')
         \<and> s' = s\<lparr>trace := trace s @ [Gatt_Read UUID_HEIGHT]\<rparr>
         \<and> writes (trace s') = writes (trace s)"
  using assms
  by (auto simp: move_to_def read_height_speed_def read_gatt_char_def and_then_def Let_def
      writes_def split: sum.splits)

theorem move_to_at_target_witness:
  "read_height_speed (desk_at 1000) fresh
     = (Returned (1000, 0), fresh\<lparr>trace := [Gatt_Read UUID_HEIGHT]\<rparr>)
   \<and> move_to 7 (desk_at 1000) \<lparr>base_height = 620\<rparr> 1000 fresh
     = (Returned (), fresh\<lparr>trace := [Gatt_Read UUID_HEIGHT]\<rparr>)
   \<and> writes [Gatt_Read UUID_HEIGHT] = []"
  using move_to_at_target [OF read_height_speed_desk_at_1000, of 7 "\<lparr>base_height = 620\<rparr>"]
  by (simp add: read_height_speed_desk_at_1000 writes_def)

subsection \<open>C1: the loop of \<open>move_to\<close> below the target\<close>

text \<open>On a desk that accepts every write and answers every read with a position in range,
  an iteration of the loop makes one reference-input write and one telemetry read, and the
  loop started below a target in \<open>[0, 65535]\<close> is still running after any number of
  iterations: its condition compares \<open>current_height\<close>, which the body never assigns.\<close>

lemma write_gatt_char_desk_pos:
  "write_gatt_char (desk pos) uuid data s
     = (Returned (), s\<lparr>trace := trace s @ [Gatt_Write uuid data]\<rparr>)"
  by (simp add: write_gatt_char_def Let_def desk_def)

lemma stop_desk_pos:
  "stop (desk pos) s
     = (Returned (), s\<lparr>trace := trace s @ [Call Stop, Gatt_Write UUID_COMMAND stop_command]\<rparr>)"
  by (simp add: stop_def write_gatt_char_desk_pos)

lemma move_to_target_desk:
  assumes "0 \<le> t" and "t \<le> 65535"
  shows "\<exists>data. move_to_target (desk pos) t s
     = (Returned (), s\<lparr>trace := trace s @ [Gatt_Write UUID_REFERENCE_INPUT data]\<rparr>)"
  using assms by (auto simp: move_to_target_def pack_H_def write_gatt_char_desk_pos)

lemma move_to_loop_desk_running:
  assumes range: "\<And>tr. 0 \<le> pos tr \<and> pos tr \<le> 65535"
    and "c < t" and "0 \<le> t" and "t \<le> 65535"
    and base: "\<bar>base_height uc\<bar> < float_limit"
  shows "\<exists>s'. move_to_loop n (desk pos) uc c t s = (Running, s')
           \<and> length (reference_writes (trace s')) = length (reference_writes (trace s)) + n
           \<and> length (reads (trace s')) = length (reads (trace s)) + n"
proof (induction n arbitrary: s)
  case 0
  show ?case using assms(2) by simp
next
  case (Suc n)
  obtain data where mt: "move_to_target (desk pos) t s
      = (Returned (), s\<lparr>trace := trace s @ [Gatt_Write UUID_REFERENCE_INPUT data]\<rparr>)"
    using move_to_target_desk [OF assms(3,4)] by blast
  let ?s2 = "s\<lparr>trace := trace s @ [Gatt_Write UUID_REFERENCE_INPUT data, Sleep_ms 500]\<rparr>"
  let ?h = "pos (trace ?s2 @ [Gatt_Read UUID_HEIGHT])"
  have rd: "get_height_speed (desk pos) ?s2
      = (Returned (?h, 0), ?s2\<lparr>trace := trace ?s2 @ [Gatt_Read UUID_HEIGHT]\<rparr>)"
    unfolding get_height_speed_def using range by (intro read_height_speed_desk) auto
  let ?s4 = "s\<lparr>trace := trace s @ [Gatt_Write UUID_REFERENCE_INPUT data, Sleep_ms 500,
       Gatt_Read UUID_HEIGHT, Log (Height_Speed ?h 0)]\<rparr>"
  have ok: "raw_to_mm_checked uc ?h = return ()"
    using range base by (intro raw_to_mm_checked_position) auto
  have step: "move_to_loop (Suc n) (desk pos) uc c t s = move_to_loop n (desk pos) uc c t ?s4"
    using assms(2) mt rd ok by (simp add: and_then_def emit_def return_def)
  obtain s' where ih: "move_to_loop n (desk pos) uc c t ?s4 = (Running, s')"
    "length (reference_writes (trace s')) = length (reference_writes (trace ?s4)) + n"
    "length (reads (trace s')) = length (reads (trace ?s4)) + n"
    using Suc.IH [of ?s4] by blast
  show ?case
    using step ih by (simp add: reference_writes_def reads_def)
qed

text \<open>
  Claim C1.  The claim says that the loop takes its position from each read and ends at the
  first iteration whose read is at or above the target.  The desk below is at 500 when
  \<open>move_to\<close> starts and at the target 1000 at every read of the loop (the base height is
  620), so the claim has the loop end after one iteration.  In the code the call has not returned after any number
  \<open>fuel\<close> of iterations, each of which made one reference-input write and one read (the
  extra read is the one that opens \<open>move_to\<close>).
\<close>

theorem move_to_keeps_running:
  "\<forall>fuel. \<exists>s'. move_to fuel (desk_moving 500 1000) \<lparr>base_height = 620\<rparr> 1000 fresh
        = (Running, s')
      \<and> length (reference_writes (trace s')) = fuel
      \<and> length (reads (trace s')) = fuel + 1"
proof
  fix fuel
  let ?pos = "\<lambda>tr. if length (reads tr) \<le> 1 then 500 else (1000::int)"
  have dev: "desk_moving 500 1000 = desk ?pos" by (simp add: desk_moving_def)
  have rng: "0 \<le> ?pos tr \<and> ?pos tr \<le> 65535" for tr by simp
  have rd: "read_height_speed (desk ?pos) fresh
      = (Returned (500, 0), fresh\<lparr>trace := [Gatt_Read UUID_HEIGHT]\<rparr>)"
    using read_height_speed_desk [of ?pos fresh] by (simp add: fresh_def reads_def)
  let ?s3 = "fresh\<lparr>trace := [Gatt_Read UUID_HEIGHT, Gatt_Write UUID_COMMAND wake_command,
       Call Stop, Gatt_Write UUID_COMMAND stop_command]\<rparr>"
  let ?uc = "\<lparr>base_height = 620\<rparr>"
  have mt: "move_to fuel (desk ?pos) ?uc 1000 fresh
      = move_to_loop fuel (desk ?pos) ?uc 500 1000 ?s3"
    using rd
    by (simp add: move_to_def and_then_def wake_up_def write_gatt_char_desk_pos stop_desk_pos)
  obtain s' where "move_to_loop fuel (desk ?pos) ?uc 500 1000 ?s3 = (Running, s')"
    "length (reference_writes (trace s')) = length (reference_writes (trace ?s3)) + fuel"
    "length (reads (trace s')) = length (reads (trace ?s3)) + fuel"
    using move_to_loop_desk_running [of ?pos 500 1000 ?uc fuel ?s3, OF rng _ _ _ base_620_fits]
    by auto
  then show "\<exists>s'. move_to fuel (desk_moving 500 1000) ?uc 1000 fresh = (Running, s')
      \<and> length (reference_writes (trace s')) = fuel
      \<and> length (reads (trace s')) = fuel + 1"
    using mt dev by (simp add: reference_writes_def reads_def fresh_def)
qed

subsection \<open>C7: a move-to value that is neither a favourite nor a number\<close>

text \<open>
  Claim C7 speaks of every move-to request whose value is neither a key of the favourites
  nor parseable as an integer.  A relay message may carry a value that is not a string:
  for the JSON object \<open>{"a": 1}\<close> the lookup in the favourites raises \<open>TypeError\<close>
  (a dict is unhashable), which the handler for \<open>ValueError\<close> does not take, so the
  command ends with that exception after the \<open>Height\<close> line and logs no
  \<open>Not a valid height or favourite position\<close> line.
\<close>

theorem run_command_invalid_move_to_counterexample:
  "int_of_pyval (PDict [(''a'', PInt 1)]) = Inl TypeError
   \<and> fst (run_command 3 (desk_at 500) \<lparr>base_height = 620\<rparr>
        (merged_config base_config [''move_to'' \<mapsto> PDict [(''a'', PInt 1)]]) fresh)
      = Raised TypeError
   \<and> logged (trace (snd (run_command 3 (desk_at 500) \<lparr>base_height = 620\<rparr>
        (merged_config base_config [''move_to'' \<mapsto> PDict [(''a'', PInt 1)]]) fresh)))
      = [Height_mm 500]"
proof -
  let ?cfg = "merged_config base_config [''move_to'' \<mapsto> PDict [(''a'', PInt 1)]]"
  have w: "\<not> truthy (dict_get ?cfg ''watch'')"
    by (simp add: dict_get_def merged_config_def base_config_simps)
  have mv: "dict_get ?cfg ''move_to'' = PDict [(''a'', PInt 1)]"
    by (simp add: dict_get_def merged_config_def)
  have fav: "favourites_get ?cfg (PDict [(''a'', PInt 1)]) = Inl TypeError"
    by (simp add: favourites_get_def favourites_of_def merged_config_def base_config_simps)
  have ok: "raw_to_mm_checked \<lparr>base_height = 620\<rparr> 500 = return ()"
    by (rule raw_to_mm_checked_position [OF base_620_fits]) simp_all
  have "run_command 3 (desk_at 500) \<lparr>base_height = 620\<rparr> ?cfg fresh
      = (Raised TypeError, fresh\<lparr>trace := [Gatt_Read UUID_HEIGHT, Log (Height_mm 500)]\<rparr>)"
    by (simp add: run_command_def and_then_def read_height_speed_desk_at ok return_def
        emit_def w mv fav raise_def fresh_def)
  then show ?thesis by simp
qed

text \<open>
  Claim C7 as amended.  Take a request whose \<open>move_to\<close> value is a non-empty string \<open>v\<close>
  that is not a key of the favourites mapping and that \<open>int\<close> does not accept, with no
  watch flag set and a base height that fits a float.  After the opening read and the
  \<open>Height\<close> line, \<open>run_command\<close> logs the line
  \<open>Not a valid height or favourite position: v\<close> and returns; the history gains no
  write to any endpoint.
\<close>

theorem run_command_invalid_move_to:
  assumes "read_height_speed dev s = (Returned (h, sp), s1)"
    and "\<bar>base_height uc\<bar> < float_limit"
    and "\<not> truthy (dict_get cfg ''watch'')"
    and "cfg ''move_to'' = Some (PStr v)" and "v \<noteq> []"
    and "favourites_of cfg = PDict d" and "map_of d v = None"
    and "py_int v = None"
  shows "run_command fuel dev uc cfg s =
           (Returned (), s1\<lparr>trace := trace s1 @
              [Log (Height_mm h),
               Log (Text ''Not a valid height or favourite position: {}'' [PStr v])]\<rparr>)
         \<and> render (Text ''Not a valid height or favourite position: {}'' [PStr v])
             = Some (''Not a valid height or favourite position: '' @ v)
         \<and> writes (trace s1 @
              [Log (Height_mm h),
               Log (Text ''Not a valid height or favourite position: {}'' [PStr v])])
             = writes (trace s)"
proof -
  have mv: "dict_get cfg ''move_to'' = PStr v"
    using assms(4) by (simp add: dict_get_def)
  have fav: "favourites_get cfg (PStr v) = Inr PNone"
    using assms(6,7) by (simp add: favourites_get_def)
  have ok: "raw_to_mm_checked uc h = return ()"
    using read_height_speed_range [OF assms(1)] assms(2)
    by (intro raw_to_mm_checked_position) auto
  have run: "run_command fuel dev uc cfg s =
           (Returned (), s1\<lparr>trace := trace s1 @
              [Log (Height_mm h),
               Log (Text ''Not a valid height or favourite position: {}'' [PStr v])]\<rparr>)"
    using assms(1,3,5,8) mv fav
    by (simp add: run_command_def and_then_def emit_def ok return_def not_valid_def
        str_checked_def)
  have tr: "trace s1 = trace s @ [Gatt_Read UUID_HEIGHT]"
    using read_height_speed_trace [OF assms(1)] by simp
  show ?thesis
    using run tr by (simp add: writes_def)
qed

theorem run_command_invalid_move_to_witness:
  "run_command 3 (desk_at 500) \<lparr>base_height = 620\<rparr>
     (merged_config base_config [''move_to'' \<mapsto> PStr ''abc'']) fresh
   = (Returned (),
      fresh\<lparr>trace := [Gatt_Read UUID_HEIGHT, Log (Height_mm 500),
         Log (Text ''Not a valid height or favourite position: {}'' [PStr ''abc''])]\<rparr>)
   \<and> render (Text ''Not a valid height or favourite position: {}'' [PStr ''abc''])
       = Some ''Not a valid height or favourite position: abc''"
proof -
  let ?cfg = "merged_config base_config [''move_to'' \<mapsto> PStr ''abc'']"
  have rd: "read_height_speed (desk_at 500) fresh
      = (Returned (500, 0), fresh\<lparr>trace := trace fresh @ [Gatt_Read UUID_HEIGHT]\<rparr>)"
    by (simp add: read_height_speed_desk_at)
  have w: "\<not> truthy (dict_get ?cfg ''watch'')"
    by (simp add: dict_get_def merged_config_def base_config_simps)
  have mv: "?cfg ''move_to'' = Some (PStr ''abc'')"
    by (simp add: merged_config_def)
  have fav: "favourites_of ?cfg = PDict []"
    by (simp add: favourites_of_def merged_config_def base_config_simps)
  show ?thesis
    using run_command_invalid_move_to [OF rd base_620_fits w mv _ fav _ py_int_abc, of 3]
    by (simp add: fresh_def)
qed

subsection \<open>C10: the final report is guarded by the truth value of the target\<close>

lemma far_below_overflows:
  "10 * float_limit \<le> \<bar>mm_to_raw \<lparr>base_height = 620\<rparr> (- float_limit)\<bar>"
  using float_limit_large by (simp add: mm_to_raw_def)

lemma far_below_position: "mm_to_raw \<lparr>base_height = 620\<rparr> (- float_limit) < 500"
  using float_limit_large by (simp add: mm_to_raw_def)

lemma far_below_nonzero: "- float_limit \<noteq> 620" "float_limit \<noteq> 0"
  using float_limit_large by simp_all

text \<open>
  Claim C10.  Take a move-to command that got as far as a successful move: the opening
  read succeeded, the base height fits a float, no watch flag is set, the value of
  \<open>move_to\<close> is true and \<open>str\<close> renders it, the requested height \<open>mm\<close> came from a
  favourite or through \<open>int\<close>, and \<open>move_to\<close> returned for the raw target
  \<open>mm_to_raw uc mm\<close>.  The target is \<open>0\<close> exactly when \<open>mm\<close> is the base height; then
  \<open>run_command\<close> returns where \<open>move_to\<close> ended, with no \<open>Final height\<close> line
  added although the move was made.  For any other target the final read is made; when
  it succeeds, one \<open>Final height\<close> line is logged and the command returns, unless the
  target is too large for the conversion to a float, where the command ends with
  \<open>OverflowError\<close> and no such line.
\<close>

theorem run_command_final_report:
  assumes "read_height_speed dev s = (Returned (h, sp), s1)"
    and "\<bar>base_height uc\<bar> < float_limit"
    and "\<not> truthy (dict_get cfg ''watch'')"
    and "truthy (dict_get cfg ''move_to'')"
    and "\<not> str_raises (dict_get cfg ''move_to'')"
    and "favourites_get cfg (dict_get cfg ''move_to'') = Inr fav"
    and "(if truthy fav then as_number fav
          else (case int_of_pyval (dict_get cfg ''move_to'') of Inr n \<Rightarrow> Some n | Inl _ \<Rightarrow> None))
         = Some mm"
    and "move_to fuel dev uc (mm_to_raw uc mm)
           (s1\<lparr>trace := trace s1 @
              [Log (Height_mm h),
               Log (Text (if truthy fav then ''Moving to favourite height: {}''
                          else ''Moving to height: {}'') [dict_get cfg ''move_to''])]\<rparr>)
         = (Returned (), s2)"
  shows "(mm_to_raw uc mm = 0 \<longleftrightarrow> mm = base_height uc)
       \<and> (mm_to_raw uc mm = 0 \<longrightarrow>
            run_command fuel dev uc cfg s = (Returned (), s2)
            \<and> final_lines (trace s2) = final_lines (trace s))
       \<and> (mm_to_raw uc mm \<noteq> 0 \<longrightarrow>
            (\<forall>f v s3. read_height_speed dev s2 = (Returned (f, v), s3) \<longrightarrow>
               (if 10 * float_limit \<le> \<bar>mm_to_raw uc mm\<bar>
                then run_command fuel dev uc cfg s = (Raised OverflowError, s3)
                   \<and> final_lines (trace s3) = final_lines (trace s)
                else run_command fuel dev uc cfg s
                     = (Returned (),
                        s3\<lparr>trace := trace s3 @ [Log (Final_Height f (mm_to_raw uc mm))]\<rparr>)
                   \<and> final_lines (trace s3 @ [Log (Final_Height f (mm_to_raw uc mm))])
                       = final_lines (trace s) @ [Final_Height f (mm_to_raw uc mm)])))"
proof -
  let ?s1' = "s1\<lparr>trace := trace s1 @
              [Log (Height_mm h),
               Log (Text (if truthy fav then ''Moving to favourite height: {}''
                          else ''Moving to height: {}'') [dict_get cfg ''move_to''])]\<rparr>"
  have ok: "raw_to_mm_checked uc h = return ()"
    using read_height_speed_range [OF assms(1)] assms(2)
    by (intro raw_to_mm_checked_position) auto
  have run: "run_command fuel dev uc cfg s = report_final dev uc (Some (mm_to_raw uc mm)) s2"
  proof (cases "truthy fav")
    case True
    then show ?thesis
      using assms
      by (simp add: run_command_def and_then_def emit_def ok return_def str_checked_def)
  next
    case False
    then obtain n where "int_of_pyval (dict_get cfg ''move_to'') = Inr n" and "n = mm"
      using assms(7) by (auto split: sum.splits)
    then show ?thesis
      using assms False
      by (simp add: run_command_def and_then_def emit_def ok return_def)
  qed
  have tr1: "trace s1 = trace s @ [Gatt_Read UUID_HEIGHT]"
    using read_height_speed_trace [OF assms(1)] by simp
  have "final_lines (trace s2) = final_lines (trace ?s1')"
    using keepsD [OF keeps_final_move_to assms(8)] .
  then have fin2: "final_lines (trace s2) = final_lines (trace s)"
    by (simp add: tr1 final_lines_snoc)
  have zero: "mm_to_raw uc mm = 0 \<longleftrightarrow> mm = base_height uc"
    by (simp add: mm_to_raw_def)
  have a: "mm_to_raw uc mm = 0 \<Longrightarrow> run_command fuel dev uc cfg s = (Returned (), s2)"
    using run by (simp add: report_final_def return_def)
  have b: "if 10 * float_limit \<le> \<bar>mm_to_raw uc mm\<bar>
           then run_command fuel dev uc cfg s = (Raised OverflowError, s3)
              \<and> final_lines (trace s3) = final_lines (trace s)
           else run_command fuel dev uc cfg s
             = (Returned (), s3\<lparr>trace := trace s3 @ [Log (Final_Height f (mm_to_raw uc mm))]\<rparr>)
           \<and> final_lines (trace s3 @ [Log (Final_Height f (mm_to_raw uc mm))])
               = final_lines (trace s) @ [Final_Height f (mm_to_raw uc mm)]"
    if nz: "mm_to_raw uc mm \<noteq> 0" and rd: "read_height_speed dev s2 = (Returned (f, v), s3)"
    for f v s3
  proof -
    have tr3: "trace s3 = trace s2 @ [Gatt_Read UUID_HEIGHT]"
      using read_height_speed_trace [OF rd] by simp
    have okf: "raw_to_mm_checked uc f = return ()"
      using read_height_speed_range [OF rd] assms(2)
      by (intro raw_to_mm_checked_position) auto
    have t: "raw_to_mm_checked uc (mm_to_raw uc mm)
        = (if 10 * float_limit \<le> \<bar>mm_to_raw uc mm\<bar> then raise OverflowError else return ())"
      using assms(2) by (simp add: raw_to_mm_checked_def raw_to_mm_raises_def)
    show ?thesis
      using run nz rd fin2 tr3
      by (simp add: report_final_def and_then_def emit_def final_lines_snoc okf t return_def
          raise_def)
  qed
  show ?thesis using zero a b fin2 by blast
qed

theorem run_command_final_report_witness:
  "run_command 3 (desk_at 500) \<lparr>base_height = 620\<rparr>
     (merged_config base_config [''move_to'' \<mapsto> PStr ''620'']) fresh
   = (Returned (),
      fresh\<lparr>trace := [Gatt_Read UUID_HEIGHT, Log (Height_mm 500),
         Log (Text ''Moving to height: {}'' [PStr ''620'']),
         Gatt_Read UUID_HEIGHT, Gatt_Write UUID_COMMAND wake_command, Call Stop,
         Gatt_Write UUID_COMMAND stop_command]\<rparr>)
   \<and> run_command 3 (desk_at 500) \<lparr>base_height = 620\<rparr>
     (merged_config base_config [''move_to'' \<mapsto> PStr ''100'']) fresh
   = (Returned (),
      fresh\<lparr>trace := [Gatt_Read UUID_HEIGHT, Log (Height_mm 500),
         Log (Text ''Moving to height: {}'' [PStr ''100'']),
         Gatt_Read UUID_HEIGHT, Gatt_Write UUID_COMMAND wake_command, Call Stop,
         Gatt_Write UUID_COMMAND stop_command, Gatt_Read UUID_HEIGHT,
         Log (Final_Height 500 (- 5200))]\<rparr>)
   \<and> run_command 3 (desk_at 500) \<lparr>base_height = 620\<rparr>
     (merged_config base_config
        [''favourites'' \<mapsto> PDict [(''low'', PInt (- float_limit))],
         ''move_to'' \<mapsto> PStr ''low'']) fresh
   = (Raised OverflowError,
      fresh\<lparr>trace := [Gatt_Read UUID_HEIGHT, Log (Height_mm 500),
         Log (Text ''Moving to favourite height: {}'' [PStr ''low'']),
         Gatt_Read UUID_HEIGHT, Gatt_Write UUID_COMMAND wake_command, Call Stop,
         Gatt_Write UUID_COMMAND stop_command, Gatt_Read UUID_HEIGHT]\<rparr>)"
proof -
  let ?uc = "\<lparr>base_height = 620\<rparr>"
  let ?c0 = "merged_config base_config [''move_to'' \<mapsto> PStr ''620'']"
  let ?c1 = "merged_config base_config [''move_to'' \<mapsto> PStr ''100'']"
  let ?c2 = "merged_config base_config
        [''favourites'' \<mapsto> PDict [(''low'', PInt (- float_limit))],
         ''move_to'' \<mapsto> PStr ''low'']"
  have rd: "read_height_speed (desk_at 500) s
      = (Returned (500, 0), s\<lparr>trace := trace s @ [Gatt_Read UUID_HEIGHT]\<rparr>)" for s
    by (simp add: read_height_speed_desk_at)
  have w: "\<not> truthy (dict_get ?c0 ''watch'')" "\<not> truthy (dict_get ?c1 ''watch'')"
    "\<not> truthy (dict_get ?c2 ''watch'')"
    by (simp_all add: dict_get_def merged_config_def base_config_simps)
  have mv: "dict_get ?c0 ''move_to'' = PStr ''620''" "dict_get ?c1 ''move_to'' = PStr ''100''"
    "dict_get ?c2 ''move_to'' = PStr ''low''"
    by (simp_all add: dict_get_def merged_config_def)
  have fav: "favourites_get ?c0 (PStr ''620'') = Inr PNone"
    "favourites_get ?c1 (PStr ''100'') = Inr PNone"
    "favourites_get ?c2 (PStr ''low'') = Inr (PInt (- float_limit))"
    by (simp_all add: favourites_get_def favourites_of_def merged_config_def base_config_simps)
  have zero: "run_command 3 (desk_at 500) ?uc ?c0 fresh
   = (Returned (),
      fresh\<lparr>trace := [Gatt_Read UUID_HEIGHT, Log (Height_mm 500),
         Log (Text ''Moving to height: {}'' [PStr ''620'']),
         Gatt_Read UUID_HEIGHT, Gatt_Write UUID_COMMAND wake_command, Call Stop,
         Gatt_Write UUID_COMMAND stop_command]\<rparr>)"
    using run_command_final_report [of "desk_at 500" fresh 500 0 _ ?uc ?c0 PNone 620 3,
        OF rd base_620_fits w(1)]
    by (simp add: mv fav py_int_620 mm_to_raw_def move_to_down_desk_at fresh_def)
  have nonzero: "run_command 3 (desk_at 500) ?uc ?c1 fresh
   = (Returned (),
      fresh\<lparr>trace := [Gatt_Read UUID_HEIGHT, Log (Height_mm 500),
         Log (Text ''Moving to height: {}'' [PStr ''100'']),
         Gatt_Read UUID_HEIGHT, Gatt_Write UUID_COMMAND wake_command, Call Stop,
         Gatt_Write UUID_COMMAND stop_command, Gatt_Read UUID_HEIGHT,
         Log (Final_Height 500 (- 5200))]\<rparr>)"
    using run_command_final_report [of "desk_at 500" fresh 500 0 _ ?uc ?c1 PNone 100 3,
        OF rd base_620_fits w(2)] float_limit_large
    by (simp add: mv fav py_int_100 mm_to_raw_def move_to_down_desk_at rd fresh_def)
  have huge: "run_command 3 (desk_at 500) ?uc ?c2 fresh
   = (Raised OverflowError,
      fresh\<lparr>trace := [Gatt_Read UUID_HEIGHT, Log (Height_mm 500),
         Log (Text ''Moving to favourite height: {}'' [PStr ''low'']),
         Gatt_Read UUID_HEIGHT, Gatt_Write UUID_COMMAND wake_command, Call Stop,
         Gatt_Write UUID_COMMAND stop_command, Gatt_Read UUID_HEIGHT]\<rparr>)"
    using run_command_final_report [of "desk_at 500" fresh 500 0 _ ?uc ?c2
        "PInt (- float_limit)" "- float_limit" 3, OF rd base_620_fits w(3)]
      far_below_overflows far_below_nonzero
    by (simp add: mv fav move_to_down_desk_at [OF _ _ far_below_position] rd fresh_def)
  show ?thesis using zero nonzero huge by simp
qed

subsection \<open>C3: a requested height below the base height\<close>

text \<open>A position decoded from a telemetry frame is never negative, so for a negative target
  \<open>move_to\<close> wakes and stops the desk and leaves the loop at once.\<close>

lemma height_lines_snoc:
  "height_lines (tr @ es) = height_lines tr @ filter is_height_line (logged es)"
  by (simp add: height_lines_def logged_append)

lemma reference_writes_snoc:
  "reference_writes (tr @ es) = reference_writes tr @ filter is_reference_write es"
  by (simp add: reference_writes_def)

lemma keeps_and_then_returned:
  assumes "keeps f m" and "\<And>x s s1. m s = (Returned x, s1) \<Longrightarrow> keeps f (g x)"
  shows "keeps f (and_then m g)"
proof (rule keepsI)
  fix s r s'
  assume run: "and_then m g s = (r, s')"
  obtain r1 s1 where m: "m s = (r1, s1)" by (cases "m s")
  have 1: "f (trace s1) = f (trace s)" using keepsD [OF assms(1) m] .
  show "f (trace s') = f (trace s)"
  proof (cases r1)
    case (Returned x)
    then have "g x s1 = (r, s')" and "keeps f (g x)"
      using run m assms(2) by (simp_all add: and_then_def)
    then show ?thesis using keepsD 1 by metis
  next
    case (Raised e)
    then show ?thesis using run m 1 by (simp add: and_then_def)
  next
    case Running
    then show ?thesis using run m 1 by (simp add: and_then_def)
  qed
qed

lemma and_then_returned:
  assumes "and_then m g s = (Returned y, s')"
  obtains x s1 where "m s = (Returned x, s1)" and "g x s1 = (Returned y, s')"
proof -
  obtain r1 s1 where m: "m s = (r1, s1)" by (cases "m s")
  show thesis
  proof (cases r1)
    case (Returned x)
    then show ?thesis using assms m that by (simp add: and_then_def)
  next
    case (Raised e)
    then show ?thesis using assms m by (simp add: and_then_def)
  next
    case Running
    then show ?thesis using assms m by (simp add: and_then_def)
  qed
qed

lemma keeps_move_to_loop_done: "\<not> c < t \<Longrightarrow> keeps f (move_to_loop fuel dev uc c t)"
  by (simp add: keeps_def move_to_loop_done)

lemma keeps_move_to_negative:
  assumes rd: "\<And>tr. f (tr @ [Gatt_Read UUID_HEIGHT]) = f tr"
    and wr: "\<And>tr data. f (tr @ [Gatt_Write UUID_COMMAND data]) = f tr"
    and st: "\<And>tr. f (tr @ [Call Stop, Gatt_Write UUID_COMMAND stop_command]) = f tr"
    and neg: "t < 0"
  shows "keeps f (move_to fuel dev uc t)"
  unfolding move_to_def
proof (rule keeps_and_then_returned)
  show "keeps f (read_height_speed dev)" using rd by (rule keeps_read_height_speed)
next
  fix x s s1
  assume "read_height_speed dev s = (Returned x, s1)"
  then have "0 \<le> fst x" using read_height_speed_range [of dev s "fst x" "snd x" s1] by simp
  then have nolt: "\<not> fst x < t" and ne: "fst x \<noteq> t" using neg by auto
  have "keeps f (and_then (wake_up dev) (\<lambda>_. and_then (stop dev)
          (\<lambda>_. move_to_loop fuel dev uc (fst x) t)))"
    unfolding wake_up_def
    by (intro keeps_and_then keeps_write_gatt_char keeps_stop keeps_move_to_loop_done wr st nolt)
  then show "keeps f (case x of (initial_height, speed) \<Rightarrow>
          if initial_height = t then (\<lambda>s. (Returned (), s))
          else and_then (wake_up dev) (\<lambda>_. and_then (stop dev)
                 (\<lambda>_. move_to_loop fuel dev uc initial_height t)))"
    using ne by (simp add: case_prod_beta)
qed

lemma keeps_report_final:
  assumes "\<And>tr. f (tr @ [Gatt_Read UUID_HEIGHT]) = f tr"
    and "\<And>tr a b. f (tr @ [Log (Final_Height a b)]) = f tr"
  shows "keeps f (report_final dev uc target)"
  unfolding report_final_def
  by (auto split: option.splits prod.splits
      intro!: keeps_return keeps_and_then keeps_read_height_speed keeps_emit
        keeps_raw_to_mm_checked assms)

lemma report_final_returned:
  assumes "report_final dev uc (Some t) s = (Returned (), s')" and "t \<noteq> 0"
  shows "\<exists>f. final_lines (trace s') = final_lines (trace s) @ [Final_Height f t]"
proof -
  have run: "and_then (read_height_speed dev) (\<lambda>(final_height, speed).
            and_then (raw_to_mm_checked uc final_height) (\<lambda>_.
            and_then (raw_to_mm_checked uc t) (\<lambda>_.
            emit (Log (Final_Height final_height t))))) s = (Returned (), s')"
    using assms by (simp add: report_final_def)
  then obtain x s1 where rd: "read_height_speed dev s = (Returned x, s1)"
    and rest: "(and_then (raw_to_mm_checked uc (fst x)) (\<lambda>_.
            and_then (raw_to_mm_checked uc t) (\<lambda>_.
            emit (Log (Final_Height (fst x) t))))) s1 = (Returned (), s')"
    by (rule and_then_returned) (simp add: case_prod_beta)
  have s1: "trace s1 = trace s @ [Gatt_Read UUID_HEIGHT]"
    using read_height_speed_trace [OF rd] by simp
  have "s' = s1\<lparr>trace := trace s1 @ [Log (Final_Height (fst x) t)]\<rparr>"
    using rest
    by (auto simp: and_then_def raw_to_mm_checked_def raise_def return_def emit_def
        split: if_splits)
  then have "final_lines (trace s') = final_lines (trace s) @ [Final_Height (fst x) t]"
    by (simp add: s1 final_lines_snoc)
  then show ?thesis by blast
qed

lemma run_command_move_to_100:
  assumes "\<not> truthy (dict_get user_config ''watch'')"
    and "favourites_of user_config = PDict d" and "map_of d ''100'' = None"
  shows "run_command fuel dev \<lparr>base_height = 620\<rparr>
           (merged_config user_config [''move_to'' \<mapsto> PStr ''100''])
       = and_then (read_height_speed dev) (\<lambda>(initial_height, speed).
         and_then (raw_to_mm_checked \<lparr>base_height = 620\<rparr> initial_height) (\<lambda>_.
         and_then (emit (Log (Height_mm initial_height))) (\<lambda>_.
         and_then (emit (Log (Text ''Moving to height: {}'' [PStr ''100'']))) (\<lambda>_.
         and_then (move_to fuel dev \<lparr>base_height = 620\<rparr> (- 5200)) (\<lambda>_.
         report_final dev \<lparr>base_height = 620\<rparr> (Some (- 5200)))))))"
proof -
  let ?cfg = "merged_config user_config [''move_to'' \<mapsto> PStr ''100'']"
  have w: "\<not> truthy (dict_get ?cfg ''watch'')"
    using assms(1) by (simp add: dict_get_def merged_config_def map_add_def)
  have mv: "dict_get ?cfg ''move_to'' = PStr ''100''"
    by (simp add: dict_get_def merged_config_def)
  have "favourites_of ?cfg = PDict d"
    using assms(2) by (simp add: favourites_of_def merged_config_def map_add_def)
  then have fav: "favourites_get ?cfg (PStr ''100'') = Inr PNone"
    using assms(3) by (simp add: favourites_get_def)
  show ?thesis
    by (simp add: run_command_def w mv fav py_int_100 mm_to_raw_def)
qed

lemma run_command_desk_at_100:
  "run_command 3 (desk_at 500) \<lparr>base_height = 620\<rparr>
     (merged_config base_config [''move_to'' \<mapsto> PStr ''100'']) fresh
   = (Returned (),
      fresh\<lparr>trace := [Gatt_Read UUID_HEIGHT, Log (Height_mm 500),
         Log (Text ''Moving to height: {}'' [PStr ''100'']),
         Gatt_Read UUID_HEIGHT, Gatt_Write UUID_COMMAND wake_command, Call Stop,
         Gatt_Write UUID_COMMAND stop_command, Gatt_Read UUID_HEIGHT,
         Log (Final_Height 500 (- 5200))]\<rparr>)"
proof -
  have w: "\<not> truthy (dict_get base_config ''watch'')"
    by (simp add: dict_get_def base_config_simps)
  have f: "favourites_of base_config = PDict []"
    by (simp add: favourites_of_def base_config_simps)
  have ok: "raw_to_mm_checked \<lparr>base_height = 620\<rparr> 500 = return ()"
    "raw_to_mm_checked \<lparr>base_height = 620\<rparr> (- 5200) = return ()"
    using float_limit_large by (simp_all add: raw_to_mm_checked_def raw_to_mm_raises_def)
  show ?thesis
    unfolding run_command_move_to_100 [OF w f, simplified]
    by (simp add: and_then_def read_height_speed_desk_at emit_def move_to_down_desk_at
        report_final_def fresh_def ok return_def)
qed

lemma run_command_desk_at_hyphen:
  "run_command 3 (desk_at 500) \<lparr>base_height = 620\<rparr>
     (merged_config base_config [''move-to'' \<mapsto> PStr ''100'']) fresh
   = (Returned (), fresh\<lparr>trace := [Gatt_Read UUID_HEIGHT, Log (Height_mm 500)]\<rparr>)"
proof -
  let ?cfg = "merged_config base_config [''move-to'' \<mapsto> PStr ''100'']"
  have w: "\<not> truthy (dict_get ?cfg ''watch'')"
    by (simp add: dict_get_def merged_config_def base_config_simps)
  have mv: "\<not> truthy (dict_get ?cfg ''move_to'')"
    by (simp add: dict_get_def merged_config_def base_config_simps)
  have ok: "raw_to_mm_checked \<lparr>base_height = 620\<rparr> 500 = return ()"
    using float_limit_large by (simp_all add: raw_to_mm_checked_def raw_to_mm_raises_def)
  show ?thesis
    by (simp add: run_command_def w mv and_then_def read_height_speed_desk_at emit_def
        report_final_def return_def fresh_def ok)
qed

text \<open>
  Claim C3 says that the override \<open>{"move-to": "100"}\<close> over base height 620 makes the relay
  server write the raw target \<open>-5200\<close> to the reference-input endpoint.  On a desk standing
  at 500 the run makes no write to that endpoint, whether the key is spelled \<open>move_to\<close>, as
  \<open>run_command\<close> reads it, or \<open>move-to\<close>; and \<open>-5200\<close> has no encoding as \<open><H\<close>.
\<close>

theorem forwarded_move_to_100_counterexample:
  "reference_writes (trace (snd (run_forwarded_command 3 (desk_at 500) \<lparr>base_height = 620\<rparr>
       base_config [''move_to'' \<mapsto> PStr ''100''] fresh))) = []
   \<and> reference_writes (trace (snd (run_forwarded_command 3 (desk_at 500) \<lparr>base_height = 620\<rparr>
       base_config [''move-to'' \<mapsto> PStr ''100''] fresh))) = []
   \<and> pack_H (mm_to_raw \<lparr>base_height = 620\<rparr> 100) = Inl StructError"
  by (simp add: run_forwarded_command_def and_then_def run_command_desk_at_100
      run_command_desk_at_hyphen emit_def reference_writes_def mm_to_raw_def pack_H_def)

text \<open>
  Claim C3 as amended.  Take the relay handler with base height 620 and the override
  \<open>{"move_to": "100"}\<close>, over a configuration with no watch flag set and whose favourites
  are a mapping without the key \<open>100\<close>.  However the peripheral answers, the handler makes
  no write to the reference-input endpoint.  When the opening read succeeds, the lines sent
  to the peer gain exactly one \<open>Height: ...mm\<close> line, for the position read.  When the
  handler returns, they gain exactly one \<open>Final height\<close> line, and the target it reports
  is the raw value \<open>(100 - 620) * 10 = -5200\<close>.
\<close>

theorem forwarded_move_to_below_base:
  assumes "\<not> truthy (dict_get user_config ''watch'')"
    and "favourites_of user_config = PDict d" and "map_of d ''100'' = None"
    and "run_forwarded_command fuel dev \<lparr>base_height = 620\<rparr> user_config
           [''move_to'' \<mapsto> PStr ''100''] s = (r, s')"
  shows "reference_writes (trace s') = reference_writes (trace s)
       \<and> (\<forall>h v s1. read_height_speed dev s = (Returned (h, v), s1) \<longrightarrow>
             height_lines (trace s') = height_lines (trace s) @ [Height_mm h])
       \<and> (r = Returned () \<longrightarrow>
             (\<exists>f. final_lines (trace s') = final_lines (trace s) @ [Final_Height f (- 5200)]))"
proof -
  let ?uc = "\<lparr>base_height = 620\<rparr>"
  let ?after = "and_then (report_final dev ?uc (Some (- 5200))) (\<lambda>_. emit (Sleep_ms 1000))"
  let ?tail = "and_then (emit (Log (Text ''Moving to height: {}'' [PStr ''100'']))) (\<lambda>_.
         and_then (move_to fuel dev ?uc (- 5200)) (\<lambda>_. ?after))"
  have whole: "run_forwarded_command fuel dev ?uc user_config
           [''move_to'' \<mapsto> PStr ''100'']
       = and_then (read_height_speed dev) (\<lambda>(initial_height, speed).
         and_then (raw_to_mm_checked ?uc initial_height) (\<lambda>_.
         and_then (emit (Log (Height_mm initial_height))) (\<lambda>_. ?tail)))"
    unfolding run_forwarded_command_def run_command_move_to_100 [OF assms(1-3)]
    by (rule ext) (simp add: and_then_def split: prod.splits result.splits)
  have ref: "keeps reference_writes (run_forwarded_command fuel dev ?uc
       user_config [''move_to'' \<mapsto> PStr ''100''])"
    unfolding whole
    by (intro keeps_and_then keeps_read_height_speed)
       (auto simp: reference_writes_snoc
         intro!: keeps_and_then keeps_emit keeps_move_to_negative keeps_report_final
           keeps_raw_to_mm_checked)
  have tail: "keeps height_lines ?tail"
    by (intro keeps_and_then keeps_emit keeps_move_to_negative keeps_report_final)
       (simp_all add: height_lines_snoc)
  have start: "?tail (s1\<lparr>trace := trace s1 @ [Log (Height_mm h)]\<rparr>) = (r, s')"
    if rd: "read_height_speed dev s = (Returned (h, v), s1)" for h v s1
  proof -
    have "raw_to_mm_checked ?uc h = return ()"
      using read_height_speed_range [OF rd] base_620_fits
      by (intro raw_to_mm_checked_position) auto
    then show ?thesis
      using assms(4) rd unfolding whole by (simp add: and_then_def emit_def return_def)
  qed
  have hl: "height_lines (trace s') = height_lines (trace s) @ [Height_mm h]"
    if rd: "read_height_speed dev s = (Returned (h, v), s1)" for h v s1
  proof -
    have "height_lines (trace s') = height_lines (trace (s1\<lparr>trace := trace s1 @ [Log (Height_mm h)]\<rparr>))"
      using keepsD [OF tail start [OF rd]] .
    also have "trace s1 = trace s @ [Gatt_Read UUID_HEIGHT]"
      using read_height_speed_trace [OF rd] by simp
    finally show ?thesis by (simp add: height_lines_snoc)
  qed
  have fl: "\<exists>f. final_lines (trace s') = final_lines (trace s) @ [Final_Height f (- 5200)]"
    if ret: "r = Returned ()"
  proof -
    have "and_then (read_height_speed dev) (\<lambda>(initial_height, speed).
         and_then (raw_to_mm_checked ?uc initial_height) (\<lambda>_.
         and_then (emit (Log (Height_mm initial_height))) (\<lambda>_. ?tail))) s = (Returned (), s')"
      using assms(4) ret unfolding whole by simp
    then obtain x s1 where rd: "read_height_speed dev s = (Returned (fst x, snd x), s1)"
      by (rule and_then_returned) simp
    let ?sb = "s1\<lparr>trace := trace s1 @ [Log (Height_mm (fst x)),
                 Log (Text ''Moving to height: {}'' [PStr ''100''])]\<rparr>"
    have "and_then (move_to fuel dev ?uc (- 5200)) (\<lambda>_. ?after) ?sb = (Returned (), s')"
      using start [OF rd] ret by (simp add: and_then_def emit_def)
    then obtain u sc where mv: "move_to fuel dev ?uc (- 5200) ?sb = (Returned u, sc)"
      and "?after sc = (Returned (), s')"
      by (rule and_then_returned)
    then obtain u' sa where rf: "report_final dev ?uc (Some (- 5200)) sc = (Returned u', sa)"
      and "emit (Sleep_ms 1000) sa = (Returned (), s')"
      by (elim and_then_returned)
    then have s': "trace s' = trace sa @ [Sleep_ms 1000]"
      by (auto simp: emit_def)
    obtain f where f: "final_lines (trace sa) = final_lines (trace sc) @ [Final_Height f (- 5200)]"
      using report_final_returned [of dev ?uc "- 5200" sc sa] rf by auto
    have "final_lines (trace sc) = final_lines (trace ?sb)"
      using keepsD [OF keeps_final_move_to mv] .
    also have "trace s1 = trace s @ [Gatt_Read UUID_HEIGHT]"
      using read_height_speed_trace [OF rd] by simp
    finally have "final_lines (trace sc) = final_lines (trace s)"
      by (simp add: final_lines_snoc)
    then show ?thesis using f s' by (simp add: final_lines_snoc)
  qed
  show ?thesis
    using keepsD [OF ref assms(4)] hl fl by blast
qed

theorem forwarded_move_to_below_base_witness:
  "reference_writes (trace (snd (run_forwarded_command 3 (desk_at 500)
        \<lparr>base_height = 620\<rparr> base_config [''move_to'' \<mapsto> PStr ''100''] fresh))) = []
   \<and> height_lines (trace (snd (run_forwarded_command 3 (desk_at 500)
        \<lparr>base_height = 620\<rparr> base_config [''move_to'' \<mapsto> PStr ''100''] fresh)))
      = [Height_mm 500]
   \<and> fst (run_forwarded_command 3 (desk_at 500)
        \<lparr>base_height = 620\<rparr> base_config [''move_to'' \<mapsto> PStr ''100''] fresh) = Returned ()
   \<and> final_lines (trace (snd (run_forwarded_command 3 (desk_at 500)
        \<lparr>base_height = 620\<rparr> base_config [''move_to'' \<mapsto> PStr ''100''] fresh)))
      = [Final_Height 500 (- 5200)]"
proof -
  let ?run = "run_forwarded_command 3 (desk_at 500)
        \<lparr>base_height = 620\<rparr> base_config [''move_to'' \<mapsto> PStr ''100''] fresh"
  have w: "\<not> truthy (dict_get base_config ''watch'')"
    by (simp add: dict_get_def base_config_simps)
  have f: "favourites_of base_config = PDict []"
    by (simp add: favourites_of_def base_config_simps)
  have rd: "read_height_speed (desk_at 500) fresh
      = (Returned (500, 0), fresh\<lparr>trace := trace fresh @ [Gatt_Read UUID_HEIGHT]\<rparr>)"
    by (simp add: read_height_speed_desk_at)
  have ret: "fst ?run = Returned ()"
    by (simp add: run_forwarded_command_def and_then_def run_command_desk_at_100 emit_def)
  have fin: "final_lines (trace (snd ?run)) = [Final_Height 500 (- 5200)]"
    by (simp add: run_forwarded_command_def and_then_def run_command_desk_at_100 emit_def
        final_lines_def)
  show ?thesis
    using forwarded_move_to_below_base [OF w f _ surjective_pairing, of 3 "desk_at 500" fresh]
      rd ret fin
    by (simp add: fresh_def reference_writes_def height_lines_def final_lines_def)
qed

subsection \<open>C4: \<open>stop\<close> and \<open>disconnect\<close> at the end of \<open>run\<close>\<close>





























end
